theory Spec2Isabelle
  imports Complex_Main "HOL-Library.List_Lexorder" "HOL-Library.Char_ord"
begin

section \<open>Tables, cells and errors\<close>

text \<open>
  The pipeline of Air-Modernity (scripts 03, 04 and 05) passes pandas data frames from
  stage to stage through CSV files. A cell of a data frame is modelled by what pandas
  holds after reading it: a number, the missing value NaN, or a text that the numeric
  parser of pandas rejects. A float64 is modelled by the real number it denotes;
  rounding and the infinite values are outside the model.
\<close>

datatype cell = Num real | NaN | Text string

text \<open>
  A table has its column names and its rows. The type of the rows is a parameter: the
  aircraft rows read by stage 03 are typed records, the rows of the later data frames
  are functions from column names to cells (only the values at the names listed in
  \<open>columns\<close> are part of the frame).
\<close>

record 'r table =
  columns :: "string list"
  rows :: "'r list"

type_synonym frame_row = "string \<Rightarrow> cell"
type_synonym frame = "frame_row table"

text \<open>
  The exceptions the three stages can raise: \<open>FileNotFoundError\<close> (input file absent),
  \<open>ValueError missing available\<close> (required columns absent, with the columns that are
  there), \<open>TypeError\<close> (an ordering comparison of a text cell with a number) and
  \<open>LibraryError\<close> (any exception raised inside a call of scikit-learn, or by pandas
  when a column is assigned that has not one value per row).
\<close>

datatype error = FileNotFoundError | ValueError "string list" "string list" | TypeError
  | LibraryError

definition bind_err :: "error + 'a \<Rightarrow> ('a \<Rightarrow> error + 'b) \<Rightarrow> error + 'b" where
  "bind_err m f = (case m of Inl e \<Rightarrow> Inl e | Inr x \<Rightarrow> f x)"

text \<open>\<open>config.MIN_FLEET_SIZE\<close>\<close>

definition MIN_FLEET_SIZE :: real where
  "MIN_FLEET_SIZE = 5"

text \<open>\<open>pd.to_numeric(..., errors="coerce")\<close> on one cell: text becomes NaN.\<close>

fun to_numeric :: "cell \<Rightarrow> cell" where
  "to_numeric (Num x) = Num x"
| "to_numeric NaN = NaN"
| "to_numeric (Text s) = NaN"

text \<open>\<open>Series.fillna(v)\<close> on one cell.\<close>

fun fillna :: "real \<Rightarrow> cell \<Rightarrow> cell" where
  "fillna v NaN = Num v"
| "fillna v c = c"

text \<open>\<open>Series.clip(lo, hi)\<close> on one cell of a numeric column; NaN stays NaN.\<close>

fun clip :: "real \<Rightarrow> real \<Rightarrow> cell \<Rightarrow> cell" where
  "clip lo hi (Num x) = Num (min (max x lo) hi)"
| "clip lo hi c = c"

text \<open>\<open>series >= v\<close> on one cell of a numeric column: a comparison with NaN is False.\<close>

fun ge_cell :: "cell \<Rightarrow> real \<Rightarrow> bool" where
  "ge_cell (Num x) v = (v \<le> x)"
| "ge_cell c v = False"

fun is_text :: "cell \<Rightarrow> bool" where
  "is_text (Text s) = True"
| "is_text c = False"

section \<open>Stage 03: features per airline\<close>

text \<open>
  One input row per aircraft. The text columns hold a string or are missing (\<open>None\<close>);
  \<open>entry_year\<close> is a cell. \<open>aircraft_type\<close> and \<open>model_key\<close> are optional
  columns: they count only when the table lists them in \<open>columns\<close>.
\<close>

record aircraft =
  airline_name :: "string option"
  country :: "string option"
  region :: "string option"
  entry_year :: cell
  aircraft_type :: "string option"
  model_key :: "string option"

text \<open>
  \<open>str.strip()\<close>: removes leading and trailing whitespace. The whitespace characters
  of Python among the code points below 256.
\<close>

definition is_space :: "char \<Rightarrow> bool" where
  "is_space c = (of_char c \<in> {9::nat, 10, 11, 12, 13, 28, 29, 30, 31, 32, 133, 160})"

definition strip :: "string \<Rightarrow> string" where
  "strip s = rev (dropWhile is_space (rev (dropWhile is_space s)))"

definition require_columns :: "string list \<Rightarrow> string list \<Rightarrow> error + unit" where
  "require_columns df_columns cols =
     (let missing = filter (\<lambda>c. c \<notin> set df_columns) cols
      in if missing \<noteq> [] then Inl (ValueError missing df_columns) else Inr ())"

text \<open>Step 3 of \<open>main\<close>: strip the three text columns, coerce \<open>entry_year\<close>.\<close>

definition clean :: "aircraft \<Rightarrow> aircraft" where
  "clean a = a\<lparr>airline_name := map_option strip (airline_name a),
               country := map_option strip (country a),
               region := map_option strip (region a),
               entry_year := to_numeric (entry_year a)\<rparr>"

text \<open>Step 4: \<open>dropna(subset=["entry_year"])\<close>.\<close>

definition has_entry_year :: "aircraft \<Rightarrow> bool" where
  "has_entry_year a = (entry_year a \<noteq> NaN)"

text \<open>The country/region filter: both present and not the empty string.\<close>

definition has_geo :: "aircraft \<Rightarrow> bool" where
  "has_geo a = (country a \<noteq> None \<and> country a \<noteq> Some [] \<and>
                region a \<noteq> None \<and> region a \<noteq> Some [])"

text \<open>The rows that reach the aggregation: cleaned, then the two drops in order.\<close>

definition kept_rows :: "aircraft list \<Rightarrow> aircraft list" where
  "kept_rows xs = filter has_geo (filter has_entry_year (map clean xs))"

text \<open>
  \<open>groupby("airline_name")\<close>: rows whose key is missing belong to no group; the keys
  come out sorted; each group keeps its rows in input order.
\<close>

definition group_keys :: "aircraft list \<Rightarrow> string list" where
  "group_keys xs = sort (remdups (List.map_filter airline_name xs))"

definition group_rows :: "aircraft list \<Rightarrow> string \<Rightarrow> aircraft list" where
  "group_rows xs k = filter (\<lambda>a. airline_name a = Some k) xs"

definition groupby :: "aircraft list \<Rightarrow> (string \<times> aircraft list) list" where
  "groupby xs = map (\<lambda>k. (k, group_rows xs k)) (group_keys xs)"

text \<open>The diversity column: \<open>aircraft_type\<close> if present, else \<open>model_key\<close>, else none.\<close>

definition diversity_col :: "string list \<Rightarrow> (aircraft \<Rightarrow> string option) option" where
  "diversity_col cols =
     (if ''aircraft_type'' \<in> set cols then Some aircraft_type
      else if ''model_key'' \<in> set cols then Some model_key
      else None)"

text \<open>\<open>pd.Series.nunique\<close>: the number of distinct values, missing ones apart.\<close>

definition nunique :: "string option list \<Rightarrow> nat" where
  "nunique vs = length (remdups (List.map_filter id vs))"

text \<open>The number in a cell of \<open>entry_year\<close>; the rows that are aggregated hold one.\<close>

fun year_of :: "cell \<Rightarrow> real" where
  "year_of (Num x) = x"
| "year_of c = 0"

text \<open>\<open>"first"\<close>: the first value of the group that is not missing.\<close>

definition first_text :: "string option list \<Rightarrow> cell" where
  "first_text vs = (case List.map_filter id vs of [] \<Rightarrow> NaN | v # _ \<Rightarrow> Text v)"

text \<open>
  One output row of stage 03 from one group (steps 7 to 9): the aggregates, the fleet
  size, the percentages with \<open>denom = fleet_size.replace(0, 1)\<close>, and the modernity
  index \<open>(pct_modern_2015 / 100).clip(0, 1)\<close>.
\<close>

definition feature_row ::
  "(aircraft \<Rightarrow> string option) option \<Rightarrow> string \<Rightarrow> aircraft list \<Rightarrow> frame_row" where
  "feature_row dcol k g =
     (let fleet_size = length g;
          modern_count_2015 = length (filter (\<lambda>a. ge_cell (entry_year a) 2015) g);
          modern_count_2010 = length (filter (\<lambda>a. ge_cell (entry_year a) 2010) g);
          denom = (if fleet_size = 0 then 1 else real fleet_size);
          pct_modern_2015 = (real modern_count_2015 / denom) * 100;
          pct_modern_2010 = (real modern_count_2010 / denom) * 100
      in (\<lambda>c. NaN)
         (''airline_name'' := Text k,
          ''country'' := first_text (map country g),
          ''region'' := first_text (map region g),
          ''avg_entry_year'' := Num (sum_list (map (\<lambda>a. year_of (entry_year a)) g) / real (length g)),
          ''modern_count_2015'' := Num (real modern_count_2015),
          ''modern_count_2010'' := Num (real modern_count_2010),
          ''diversity_score'' :=
             (case dcol of Some col \<Rightarrow> Num (real (nunique (map col g))) | None \<Rightarrow> Num 0),
          ''fleet_size'' := Num (real fleet_size),
          ''pct_modern_2015'' := Num pct_modern_2015,
          ''pct_modern_2010'' := Num pct_modern_2010,
          ''modernity_index'' := clip 0 1 (Num (pct_modern_2015 / 100))))"

definition feature_columns :: "string list \<Rightarrow> string list" where
  "feature_columns cols =
     [''airline_name'', ''country'', ''region'', ''avg_entry_year'', ''modern_count_2015'',
      ''modern_count_2010''] @
     (if diversity_col cols \<noteq> None then [''diversity_score'', ''fleet_size'']
      else [''fleet_size'', ''diversity_score'']) @
     [''pct_modern_2015'', ''pct_modern_2010'', ''modernity_index'']"

text \<open>
  \<open>main\<close> of \<open>03_generate_features.py\<close>. The argument is the content of
  \<open>config.DATA_FLEET_ENRICHED\<close>, \<open>None\<close> when the file does not exist; the result is
  the table written to \<open>config.FILE_FEATURES\<close>.
\<close>

definition generate_features_main :: "aircraft table option \<Rightarrow> error + frame" where
  "generate_features_main file =
     (case file of
        None \<Rightarrow> Inl FileNotFoundError
      | Some df \<Rightarrow>
          bind_err (require_columns (columns df)
                      [''airline_name'', ''country'', ''region'', ''entry_year''])
            (\<lambda>_. Inr \<lparr>columns = feature_columns (columns df),
                       rows = map (\<lambda>(k, g). feature_row (diversity_col (columns df)) k g)
                                  (groupby (kept_rows (rows df)))\<rparr>))"

section \<open>Stage 04: the fleet-size filter and the clamp\<close>

text \<open>
  \<open>df[df["fleet_size"] >= config.MIN_FLEET_SIZE]\<close>. When the column holds a text
  cell, pandas has read it as a column of strings and the comparison with the number
  raises \<open>TypeError\<close>; on a numeric column a row is kept when its cell is a number not
  below the threshold (NaN compares False).
\<close>

definition fleet_filter :: "frame_row list \<Rightarrow> error + frame_row list" where
  "fleet_filter rs =
     (if list_ex (\<lambda>r. is_text (r ''fleet_size'')) rs then Inl TypeError
      else Inr (filter (\<lambda>r. ge_cell (r ''fleet_size'') MIN_FLEET_SIZE) rs))"

text \<open>\<open>pd.to_numeric(..., errors="coerce").fillna(0).clip(0, 1)\<close> on the score of a row.\<close>

definition clamp_score :: "frame_row \<Rightarrow> frame_row" where
  "clamp_score r =
     r(''modernity_index'' := clip 0 1 (fillna 0 (to_numeric (r ''modernity_index''))))"

text \<open>
  \<open>main\<close> of \<open>04_build_scores.py\<close>. The argument is the content of
  \<open>config.FILE_FEATURES\<close>, \<open>None\<close> when the file does not exist; the result is the
  table written to \<open>config.FILE_SCORES\<close>.
\<close>

definition build_scores_main :: "frame option \<Rightarrow> error + frame" where
  "build_scores_main file =
     (case file of
        None \<Rightarrow> Inl FileNotFoundError
      | Some df \<Rightarrow>
          (let required = [''fleet_size'', ''modernity_index''];
               missing = filter (\<lambda>c. c \<notin> set (columns df)) required
           in if missing \<noteq> [] then Inl (ValueError missing (columns df))
              else bind_err (fleet_filter (rows df))
                     (\<lambda>kept. Inr \<lparr>columns = columns df, rows = map clamp_score kept\<rparr>)))"

section \<open>Stage 05: clustering, elbow curve and the nearest-neighbour classifier\<close>

type_synonym matrix = "real list list"

text \<open>The fitted \<open>StandardScaler\<close>: its attributes \<open>mean_\<close> and \<open>scale_\<close>.\<close>

record scaler =
  scaler_mean :: "real list"
  scaler_scale :: "real list"

text \<open>
  Modelled from the spec: \<open>scaler.transform\<close> is code of scikit-learn, not of the
  repository. Section 4.3 of the specification: the transform of a feature vector is
  \<open>(x - mean) / scale\<close>, column by column, with the fitted parameters.
\<close>

definition scaler_transform :: "scaler \<Rightarrow> real list \<Rightarrow> real list" where
  "scaler_transform s x =
     map (\<lambda>(v, m, sc). (v - m) / sc) (zip x (zip (scaler_mean s) (scaler_scale s)))"

text \<open>A fitted \<open>KMeans\<close>: its attributes \<open>labels_\<close> and \<open>inertia_\<close>.\<close>

record kmeans =
  kmeans_labels :: "nat list"
  kmeans_inertia :: real

text \<open>The four parts returned by \<open>train_test_split\<close>.\<close>

record split =
  X_train :: matrix
  X_test :: matrix
  y_train :: "nat list"
  y_test :: "nat list"

text \<open>
  The numerical routines of scikit-learn that \<open>run\<close> calls are not code of the
  repository: they are parameters of the model, each with the arguments that \<open>run\<close>
  fixes (\<open>n_init=10\<close>, \<open>test_size=0.2\<close>, \<open>stratify=y\<close>, \<open>n_components=2\<close>)
  built in, and each may raise. A routine that draws random numbers takes its
  \<open>random_state\<close> argument (\<open>None\<close> when the caller gives none) and the state
  \<open>'g\<close> of the global generator of NumPy, from which it draws when it is given no
  \<open>random_state\<close>.
\<close>

record 'g sklearn =
  StandardScaler_fit :: "matrix \<Rightarrow> error + scaler"
  KMeans_fit :: "'g \<Rightarrow> nat option \<Rightarrow> nat \<Rightarrow> matrix \<Rightarrow> error + kmeans"
  train_test_split :: "'g \<Rightarrow> nat option \<Rightarrow> matrix \<Rightarrow> nat list \<Rightarrow> error + split"
  PCA_fit_transform :: "'g \<Rightarrow> nat option \<Rightarrow> matrix \<Rightarrow> error + (real \<times> real) list"

text \<open>
  Modelled from the spec: \<open>KNeighborsClassifier\<close> is code of scikit-learn, not of
  the repository. Section 4.6 of the specification: a nearest-neighbour classifier with
  5 neighbours, majority vote and Euclidean distance in standardised feature space.
  Fitting stores the training points and their labels.
\<close>

record knn =
  n_neighbors :: nat
  fit_X :: matrix
  fit_y :: "nat list"

definition KNeighborsClassifier_fit :: "nat \<Rightarrow> matrix \<Rightarrow> nat list \<Rightarrow> knn" where
  "KNeighborsClassifier_fit n X y = \<lparr>n_neighbors = n, fit_X = X, fit_y = y\<rparr>"

text \<open>
  Modelled from the spec: the squared Euclidean distance of section 4.6; it orders the
  points as the distance does.
\<close>

definition sq_dist :: "real list \<Rightarrow> real list \<Rightarrow> real" where
  "sq_dist p q = sum_list (map (\<lambda>(a, b). (a - b) * (a - b)) (zip p q))"

text \<open>
  Modelled from the spec: the labels of the \<open>n_neighbors\<close> training points nearest
  to \<open>x\<close> (section 4.6). Points at equal distance are taken in training order.
\<close>

definition kneighbors :: "knn \<Rightarrow> real list \<Rightarrow> nat list" where
  "kneighbors m x =
     map snd (take (n_neighbors m)
                (sort_key (\<lambda>(p, l). sq_dist p x) (zip (fit_X m) (fit_y m))))"

text \<open>
  Modelled from the spec: the majority vote of section 4.6; among the labels with the
  most votes the smallest wins, as in scikit-learn.
\<close>

definition vote :: "nat list \<Rightarrow> nat option" where
  "vote ls =
     find (\<lambda>l. list_all (\<lambda>l'. count_list ls l' \<le> count_list ls l) ls) (sort (remdups ls))"

text \<open>
  Modelled from the spec: \<open>knn.predict\<close> on one point, the vote of its nearest
  training points (section 4.6). scikit-learn raises when the classifier was fitted on
  fewer points than \<open>n_neighbors\<close>.
\<close>

definition knn_predict :: "knn \<Rightarrow> real list \<Rightarrow> error + nat" where
  "knn_predict m x =
     (if length (fit_X m) < n_neighbors m then Inl LibraryError
      else case vote (kneighbors m x) of None \<Rightarrow> Inl LibraryError | Some l \<Rightarrow> Inr l)"

fun predict_all :: "knn \<Rightarrow> matrix \<Rightarrow> error + nat list" where
  "predict_all m [] = Inr []"
| "predict_all m (x # xs) =
     bind_err (knn_predict m x) (\<lambda>l. bind_err (predict_all m xs) (\<lambda>ls. Inr (l # ls)))"

text \<open>
  The simulator of \<open>app.py\<close>: \<open>knn_model.predict(scaler.transform(user_data))[0]\<close>.
\<close>

definition simulate :: "scaler \<Rightarrow> knn \<Rightarrow> real list \<Rightarrow> error + nat" where
  "simulate s m user_data = knn_predict m (scaler_transform s user_data)"

text \<open>\<open>accuracy_score\<close> and \<open>confusion_matrix\<close> of \<open>sklearn.metrics\<close>.\<close>

definition accuracy_score :: "nat list \<Rightarrow> nat list \<Rightarrow> real" where
  "accuracy_score ys ps =
     real (length (filter (\<lambda>(y, p). y = p) (zip ys ps))) / real (length ys)"

definition confusion_matrix :: "nat list \<Rightarrow> nat list \<Rightarrow> nat list list" where
  "confusion_matrix ys ps =
     (let labels = sort (remdups (ys @ ps))
      in map (\<lambda>t. map (\<lambda>q. length (filter (\<lambda>(y, p). y = t \<and> p = q) (zip ys ps))) labels)
             labels)"

record metrics =
  accuracy :: real
  confusion :: "nat list list"

text \<open>The dictionary \<open>inertia = {"k": [], "inertia": []}\<close> of the elbow curve.\<close>

record elbow =
  elbow_k :: "nat list"
  elbow_inertia :: "real list"

text \<open>
  The loop \<open>for k in range(1, 10)\<close>: fit a \<open>KMeans(n_clusters=k, random_state=42,
  n_init=10)\<close> and append \<open>k\<close> and its inertia. An exception of a fit ends the loop
  and the run.
\<close>

fun elbow_loop ::
  "'g sklearn \<Rightarrow> 'g \<Rightarrow> matrix \<Rightarrow> nat list \<Rightarrow> elbow \<Rightarrow> error + elbow" where
  "elbow_loop lib g X [] acc = Inr acc"
| "elbow_loop lib g X (k # ks) acc =
     bind_err (KMeans_fit lib g (Some 42) k X)
       (\<lambda>km. elbow_loop lib g X ks
                \<lparr>elbow_k = elbow_k acc @ [k],
                 elbow_inertia = elbow_inertia acc @ [kmeans_inertia km]\<rparr>)"

definition ensure_required_cols :: "string list \<Rightarrow> string list \<Rightarrow> error + unit" where
  "ensure_required_cols df_columns cols =
     (let missing = filter (\<lambda>c. c \<notin> set df_columns) cols
      in if missing \<noteq> [] then Inl (ValueError missing df_columns) else Inr ())"

text \<open>\<open>df[c] = ...\<close> adds the column at the end unless the frame has it already.\<close>

definition add_column :: "string list \<Rightarrow> string \<Rightarrow> string list" where
  "add_column cols c = (if c \<in> set cols then cols else cols @ [c])"

text \<open>
  \<open>if "new_gen_share" not in df.columns: df["new_gen_share"] = df["modernity_index"]\<close>
\<close>

definition with_new_gen_share :: "frame \<Rightarrow> frame" where
  "with_new_gen_share df =
     (if ''new_gen_share'' \<notin> set (columns df)
      then \<lparr>columns = columns df @ [''new_gen_share''],
            rows = map (\<lambda>r. r(''new_gen_share'' := r ''modernity_index'')) (rows df)\<rparr>
      else df)"

text \<open>The four columns given to the models, in this order.\<close>

definition features :: "string list" where
  "features = [''fleet_size'', ''diversity_score'', ''modernity_index'', ''new_gen_share'']"

text \<open>The number in a cell that has been coerced and filled.\<close>

fun num_of :: "cell \<Rightarrow> real" where
  "num_of (Num x) = x"
| "num_of c = 0"

text \<open>\<open>X = df_clean[features].apply(pd.to_numeric, errors="coerce").fillna(0)\<close>\<close>

definition feature_matrix :: "frame_row list \<Rightarrow> matrix" where
  "feature_matrix rs = map (\<lambda>r. map (\<lambda>c. num_of (fillna 0 (to_numeric (r c)))) features) rs"

text \<open>
  The part of \<open>run\<close> before the first fit (lines 54 to 77): the rows of \<open>df_clean\<close>
  and its columns. \<open>None\<close> stands for the early \<open>return\<close> taken when the scores file
  does not exist.
\<close>

definition prepare :: "frame option \<Rightarrow> error + frame option" where
  "prepare file =
     (case file of
        None \<Rightarrow> Inr None
      | Some df \<Rightarrow>
          bind_err (ensure_required_cols (columns df)
                      [''fleet_size'', ''diversity_score'', ''modernity_index''])
            (\<lambda>_. let df' = with_new_gen_share df
                 in bind_err (fleet_filter (rows df'))
                      (\<lambda>kept. Inr (Some \<lparr>columns = columns df', rows = kept\<rparr>))))"

text \<open>What a completed \<open>run\<close> has written.\<close>

record run_output =
  clusters_csv :: frame
  scaler_pkl :: scaler
  knn_model_pkl :: knn
  elbow_data :: elbow
  knn_metrics :: metrics

text \<open>
  The assignment \<open>df_clean["cluster"] = clusters\<close>; pandas raises when the column has
  not one value per row.
\<close>

definition assign_cluster :: "frame \<Rightarrow> nat list \<Rightarrow> error + frame" where
  "assign_cluster df clusters =
     (if length clusters \<noteq> length (rows df) then Inl LibraryError
      else Inr \<lparr>columns = add_column (columns df) ''cluster'',
                rows = map (\<lambda>(r, c). r(''cluster'' := Num (real c)))
                           (zip (rows df) clusters)\<rparr>)"

text \<open>
  The assignments \<open>df_clean["pca_1"] = comps[:, 0]\<close> and
  \<open>df_clean["pca_2"] = comps[:, 1]\<close>.
\<close>

definition assign_pca :: "frame \<Rightarrow> (real \<times> real) list \<Rightarrow> error + frame" where
  "assign_pca df comps =
     (if length comps \<noteq> length (rows df) then Inl LibraryError
      else Inr \<lparr>columns = add_column (add_column (columns df) ''pca_1'') ''pca_2'',
                rows = map (\<lambda>(r, p). r(''pca_1'' := Num (fst p), ''pca_2'' := Num (snd p)))
                           (zip (rows df) comps)\<rparr>)"

text \<open>
  \<open>run\<close> of \<open>05_clustering.py\<close>. The argument is the content of
  \<open>config.FILE_SCORES\<close>, \<open>None\<close> when the file does not exist. The result is
  \<open>Inr None\<close> when \<open>run\<close> returns without writing anything. Every routine that
  draws random numbers is called with \<open>random_state=42\<close>; \<open>g\<close> is the state of the
  global generator when \<open>run\<close> starts.
\<close>

definition run :: "'g sklearn \<Rightarrow> 'g \<Rightarrow> frame option \<Rightarrow> error + run_output option" where
  "run lib g file =
     bind_err (prepare file)
       (\<lambda>p. case p of
          None \<Rightarrow> Inr None
        | Some df_clean \<Rightarrow>
            (let X = feature_matrix (rows df_clean)
             in bind_err (StandardScaler_fit lib X) (\<lambda>sc.
                let X_scaled = map (scaler_transform sc) X
                in bind_err (KMeans_fit lib g (Some 42) 4 X_scaled) (\<lambda>km.
                   let clusters = kmeans_labels km
                   in bind_err (assign_cluster df_clean clusters) (\<lambda>df_clean.
                      bind_err (elbow_loop lib g X_scaled [1..<10]
                                  \<lparr>elbow_k = [], elbow_inertia = []\<rparr>) (\<lambda>inertia.
                      bind_err (train_test_split lib g (Some 42) X_scaled clusters) (\<lambda>sp.
                      let m = KNeighborsClassifier_fit 5 (X_train sp) (y_train sp)
                      in bind_err (predict_all m (X_test sp)) (\<lambda>y_pred.
                         bind_err (PCA_fit_transform lib g (Some 42) X_scaled) (\<lambda>comps.
                         bind_err (assign_pca df_clean comps) (\<lambda>df_clean.
                           Inr (Some \<lparr>clusters_csv = df_clean,
                                      scaler_pkl = sc,
                                      knn_model_pkl = m,
                                      elbow_data = inertia,
                                      knn_metrics =
                                        \<lparr>accuracy = accuracy_score (y_test sp) y_pred,
                                         confusion = confusion_matrix (y_test sp) y_pred\<rparr>\<rparr>)
                         ))))))))))"

section \<open>Predicates and sample data used in the statements\<close>

text \<open>A score that is a number of the closed interval from 0 to 1.\<close>

fun in_unit :: "cell \<Rightarrow> bool" where
  "in_unit (Num x) = (0 \<le> x \<and> x \<le> 1)"
| "in_unit c = False"

text \<open>
  An aircraft row survives the drops of stage 03 when, once cleaned, it has an entry
  year, a country and a region.
\<close>

definition survives_drop :: "aircraft \<Rightarrow> bool" where
  "survives_drop a = (has_entry_year (clean a) \<and> has_geo (clean a))"

text \<open>
  The number of input rows that survive the drops and whose airline name, stripped of
  surrounding whitespace, is \<open>X\<close>.
\<close>

definition fleet_count :: "aircraft list \<Rightarrow> string \<Rightarrow> nat" where
  "fleet_count xs X =
     length (filter (\<lambda>a. map_option strip (airline_name a) = Some X \<and> survives_drop a) xs)"

text \<open>A row whose country is missing, empty or made of whitespace only.\<close>

definition no_country :: "aircraft \<Rightarrow> bool" where
  "no_country a = (case country a of None \<Rightarrow> True | Some s \<Rightarrow> strip s = [])"

text \<open>The cells of one column of the table a stage has written (none when it raised).\<close>

definition column_values :: "string \<Rightarrow> error + frame \<Rightarrow> cell list" where
  "column_values c res = (case res of Inl e \<Rightarrow> [] | Inr df \<Rightarrow> map (\<lambda>r. r c) (rows df))"

text \<open>A row given by the cells it holds; every other column is missing.\<close>

definition row_of :: "(string \<times> cell) list \<Rightarrow> frame_row" where
  "row_of kvs = (\<lambda>c. case map_of kvs c of Some v \<Rightarrow> v | None \<Rightarrow> NaN)"

text \<open>
  A fleet file of five aircraft: two of Air A (one name with a trailing space), one of
  Air B whose entry year is not a number, and two of Air C, the first without a country.
\<close>

definition air_a_1 :: aircraft where
  "air_a_1 = \<lparr>airline_name = Some ''Air A'', country = Some ''France'',
              region = Some ''Europe'', entry_year = Num 2016,
              aircraft_type = Some ''A320'', model_key = None\<rparr>"

definition air_a_2 :: aircraft where
  "air_a_2 = \<lparr>airline_name = Some ''Air A '', country = Some ''France'',
              region = Some ''Europe'', entry_year = Num 2001,
              aircraft_type = Some ''B737'', model_key = None\<rparr>"

definition air_b_1 :: aircraft where
  "air_b_1 = \<lparr>airline_name = Some ''Air B'', country = Some ''Peru'',
              region = Some ''Americas'', entry_year = Text ''unknown'',
              aircraft_type = Some ''A320'', model_key = None\<rparr>"

definition air_c_1 :: aircraft where
  "air_c_1 = \<lparr>airline_name = Some ''Air C'', country = None,
              region = Some ''Asia'', entry_year = Num 2019,
              aircraft_type = Some ''A350'', model_key = None\<rparr>"

definition air_c_2 :: aircraft where
  "air_c_2 = \<lparr>airline_name = Some ''Air C'', country = Some ''Japan'',
              region = Some ''Asia'', entry_year = Num 2015,
              aircraft_type = Some ''B787'', model_key = None\<rparr>"

definition fleet_example :: "aircraft table" where
  "fleet_example =
     \<lparr>columns = [''airline_name'', ''country'', ''region'', ''aircraft_type'', ''entry_year''],
      rows = [air_a_1, air_a_2, air_b_1, air_c_1, air_c_2]\<rparr>"

text \<open>
  A features file of five airlines with fleet sizes 3, 4, 5, 5 and 6; the third has a
  modernity index of 120 percent and the fourth a score that is not a number.
\<close>

definition features_example :: frame where
  "features_example =
     \<lparr>columns = [''airline_name'', ''fleet_size'', ''diversity_score'', ''modernity_index''],
      rows =
        [row_of [(''airline_name'', Text ''A''), (''fleet_size'', Num 3),
                 (''diversity_score'', Num 1), (''modernity_index'', Num (1/5))],
         row_of [(''airline_name'', Text ''B''), (''fleet_size'', Num 4),
                 (''diversity_score'', Num 2), (''modernity_index'', Num (1/2))],
         row_of [(''airline_name'', Text ''C''), (''fleet_size'', Num 5),
                 (''diversity_score'', Num 2), (''modernity_index'', Num (6/5))],
         row_of [(''airline_name'', Text ''D''), (''fleet_size'', Num 5),
                 (''diversity_score'', Num 3), (''modernity_index'', Text ''n/a'')],
         row_of [(''airline_name'', Text ''E''), (''fleet_size'', Num 6),
                 (''diversity_score'', Num 1), (''modernity_index'', Num (2/5))]]\<rparr>"

text \<open>A scores file with the required columns and no row at all.\<close>

definition empty_scores :: frame where
  "empty_scores =
     \<lparr>columns = [''airline_name'', ''fleet_size'', ''diversity_score'', ''modernity_index''],
      rows = []\<rparr>"

text \<open>
  Two instances of the library parameters, used to run \<open>run\<close> on sample data. The
  routines of the first never raise: unit scaler, nothing held out, zero projection,
  and one cluster whose label is 0 when a \<open>random_state\<close> is given and is drawn from
  the global generator otherwise. The routines of the second always raise.
\<close>

definition constant_sklearn :: "nat sklearn" where
  "constant_sklearn =
     \<lparr>StandardScaler_fit = (\<lambda>X. Inr \<lparr>scaler_mean = [0, 0, 0, 0], scaler_scale = [1, 1, 1, 1]\<rparr>),
      KMeans_fit = (\<lambda>g random_state k X.
         Inr \<lparr>kmeans_labels = map (\<lambda>x. case random_state of None \<Rightarrow> g | Some seed \<Rightarrow> 0) X,
              kmeans_inertia = 0\<rparr>),
      train_test_split = (\<lambda>g random_state X y.
         Inr \<lparr>X_train = X, X_test = [], y_train = y, y_test = []\<rparr>),
      PCA_fit_transform = (\<lambda>g random_state X. Inr (map (\<lambda>x. (0, 0)) X))\<rparr>"

definition raising_sklearn :: "nat sklearn" where
  "raising_sklearn =
     \<lparr>StandardScaler_fit = (\<lambda>X. Inl LibraryError),
      KMeans_fit = (\<lambda>g random_state k X. Inl LibraryError),
      train_test_split = (\<lambda>g random_state X y. Inl LibraryError),
      PCA_fit_transform = (\<lambda>g random_state X. Inl LibraryError)\<rparr>"






text \<open>
  The contract of scikit-learn for \<open>random_state\<close>: a routine that is given a seed
  builds its own generator from it, so its result does not depend on the state of the
  global generator.
\<close>

definition seeded :: "'g sklearn \<Rightarrow> bool" where
  "seeded lib =
     ((\<forall>g g' seed k X. KMeans_fit lib g (Some seed) k X = KMeans_fit lib g' (Some seed) k X) \<and>
      (\<forall>g g' seed X y.
         train_test_split lib g (Some seed) X y = train_test_split lib g' (Some seed) X y) \<and>
      (\<forall>g g' seed X.
         PCA_fit_transform lib g (Some seed) X = PCA_fit_transform lib g' (Some seed) X))"

text \<open>
  A clustered table of twenty airlines, each given by its fleet size and its cluster;
  every airline has diversity score 3 and modernity index and new-generation share 1/2.
  The fleet sizes have mean 72.1 and standard deviation 73.7, the constant columns have
  scale 1: \<open>example_scaler\<close> is the Scaler fitted on this table. The four clusters
  are the four groups of fleet sizes that lie together. Four airlines are held out of
  the training set (two of cluster 0, one of cluster 2, one of cluster 3), as a
  stratified split of one fifth does; the classifier is fitted on the other sixteen.
\<close>

definition example_clusters :: "(real \<times> nat) list" where
  "example_clusters =
     [(8, 0), (9, 0), (10, 0), (11, 0), (12, 0), (14, 0), (15, 0), (17, 0), (19, 0), (21, 0),
      (40, 1), (41, 1),
      (102, 2), (103, 2), (104, 2), (105, 2),
      (200, 3), (202, 3), (204, 3), (205, 3)]"

definition example_raw :: "real \<Rightarrow> real list" where
  "example_raw f = [f, 3, 1/2, 1/2]"

definition example_scaler :: scaler where
  "example_scaler =
     \<lparr>scaler_mean = [721/10, 3, 1/2, 1/2], scaler_scale = [737/10, 1, 1, 1]\<rparr>"

definition example_held_out :: "real list" where
  "example_held_out = [10, 17, 103, 204]"

definition example_knn :: knn where
  "example_knn =
     (let train = filter (\<lambda>(f, l). f \<notin> set example_held_out) example_clusters
      in KNeighborsClassifier_fit 5
           (map (\<lambda>(f, l). scaler_transform example_scaler (example_raw f)) train)
           (map snd train))"

text \<open>The mean fleet size of a cluster of the example.\<close>

definition example_centroid :: "nat \<Rightarrow> real" where
  "example_centroid c =
     (let fs = map fst (filter (\<lambda>(f, l). l = c) example_clusters)
      in sum_list fs / real (length fs))"

section \<open>Basic facts\<close>

lemma bind_err_Inr: "bind_err m f = Inr y \<longleftrightarrow> (\<exists>x. m = Inr x \<and> f x = Inr y)"
  by (cases m) (simp_all add: bind_err_def)

lemma bind_err_simps [simp]: "bind_err (Inl e) f = Inl e" "bind_err (Inr x) f = f x"
  by (simp_all add: bind_err_def)

subsection \<open>Stage 03\<close>

lemma require_columns_Inr: "require_columns cs req = Inr u \<longleftrightarrow> set req \<subseteq> set cs"
  by (auto simp: require_columns_def Let_def filter_empty_conv)

lemma generate_features_Inr:
  "generate_features_main (Some df) = Inr out \<longleftrightarrow>
     ({''airline_name'', ''country'', ''region'', ''entry_year''} \<subseteq> set (columns df) \<and>
      out = \<lparr>columns = feature_columns (columns df),
             rows = map (\<lambda>(k, g). feature_row (diversity_col (columns df)) k g)
                        (groupby (kept_rows (rows df)))\<rparr>)"
  by (auto simp: generate_features_main_def bind_err_Inr require_columns_Inr)

lemma clean_name: "airline_name (clean a) = map_option strip (airline_name a)"
  by (simp add: clean_def)

lemma group_rows_kept:
  "group_rows (kept_rows xs) k =
     map clean (filter (\<lambda>a. map_option strip (airline_name a) = Some k \<and> survives_drop a) xs)"
  by (induction xs) (auto simp: group_rows_def kept_rows_def survives_drop_def clean_name)

lemma set_group_keys: "set (group_keys xs) = {k. \<exists>a\<in>set xs. airline_name a = Some k}"
  by (force simp: group_keys_def List.map_filter_def image_iff)

lemma distinct_group_keys: "distinct (group_keys xs)"
  by (simp add: group_keys_def)

lemma set_kept_rows: "set (kept_rows xs) = clean ` {a \<in> set xs. survives_drop a}"
  by (auto simp: kept_rows_def survives_drop_def)

lemma feature_row_name: "feature_row d k g ''airline_name'' = Text k"
  by (simp add: feature_row_def Let_def)

lemma feature_row_fleet: "feature_row d k g ''fleet_size'' = Num (real (length g))"
  by (simp add: feature_row_def Let_def)

lemma feature_row_in_unit: "in_unit (feature_row d k g ''modernity_index'')"
  by (simp add: feature_row_def Let_def)

lemma groupby_rows:
  "map (\<lambda>(k, g). f k g) (groupby xs) = map (\<lambda>k. f k (group_rows xs k)) (group_keys xs)"
  by (simp add: groupby_def comp_def)

lemma unparsable_dropped:
  "is_text (entry_year a) \<or> entry_year a = NaN \<Longrightarrow> \<not> survives_drop a"
  by (cases "entry_year a") (auto simp: survives_drop_def has_entry_year_def clean_def)

lemma generate_features_in_unit:
  assumes "generate_features_main (Some df) = Inr out" "r \<in> set (rows out)"
  shows "in_unit (r ''modernity_index'')"
  using assms by (auto simp: generate_features_Inr feature_row_in_unit)

text \<open>The sample fleet: what is kept, the keys, and the rows written.\<close>

lemma strip_air_a: "strip ''Air A '' = ''Air A''" "strip ''Air A'' = ''Air A''"
  by (simp_all add: strip_def is_space_def)

lemma kept_rows_fleet_example:
  "kept_rows (rows fleet_example) = [clean air_a_1, clean air_a_2, clean air_c_2]"
  by (simp add: fleet_example_def kept_rows_def has_geo_def has_entry_year_def clean_def
      air_a_1_def air_a_2_def air_b_1_def air_c_1_def air_c_2_def strip_def is_space_def)

lemma clean_names_fleet_example:
  "airline_name (clean air_a_1) = Some ''Air A''"
  "airline_name (clean air_a_2) = Some ''Air A''"
  "airline_name (clean air_c_2) = Some ''Air C''"
  by (simp_all add: clean_def air_a_1_def air_a_2_def air_c_2_def strip_def is_space_def)

lemma group_keys_fleet_example:
  "group_keys (kept_rows (rows fleet_example)) = [''Air A'', ''Air C'']"
  by (simp add: kept_rows_fleet_example group_keys_def List.map_filter_def
      clean_names_fleet_example)

lemma groupby_fleet_example:
  "groupby (kept_rows (rows fleet_example)) =
     [(''Air A'', [clean air_a_1, clean air_a_2]), (''Air C'', [clean air_c_2])]"
  unfolding groupby_def group_keys_fleet_example
  by (simp add: group_rows_def kept_rows_fleet_example clean_names_fleet_example)

lemma generate_features_fleet_example:
  "generate_features_main (Some fleet_example) =
     Inr \<lparr>columns = feature_columns (columns fleet_example),
          rows = [feature_row (Some aircraft_type) ''Air A'' [clean air_a_1, clean air_a_2],
                  feature_row (Some aircraft_type) ''Air C'' [clean air_c_2]]\<rparr>"
  by (simp add: generate_features_Inr groupby_fleet_example)
     (simp add: fleet_example_def diversity_col_def)

lemma survives_fleet_example:
  "survives_drop air_a_1" "survives_drop air_a_2" "\<not> survives_drop air_b_1"
  "\<not> survives_drop air_c_1" "survives_drop air_c_2"
  by (simp_all add: survives_drop_def has_geo_def has_entry_year_def clean_def
      air_a_1_def air_a_2_def air_b_1_def air_c_1_def air_c_2_def strip_def is_space_def)

subsection \<open>Stage 04\<close>

lemma fleet_filter_Inr:
  "fleet_filter rs = Inr kept \<longleftrightarrow>
     (\<not> list_ex (\<lambda>r. is_text (r ''fleet_size'')) rs \<and>
      kept = filter (\<lambda>r. ge_cell (r ''fleet_size'') MIN_FLEET_SIZE) rs)"
  by (auto simp: fleet_filter_def)

lemma clamp_score_fleet: "clamp_score r ''fleet_size'' = r ''fleet_size''"
  by (simp add: clamp_score_def)

lemma in_unit_clip: "in_unit (clip 0 1 (fillna 0 (to_numeric c)))"
  by (cases c) auto

lemma clamp_score_in_unit: "in_unit (clamp_score r ''modernity_index'')"
  by (simp add: clamp_score_def in_unit_clip)

lemma build_scores_Inr:
  "build_scores_main (Some df) = Inr out \<longleftrightarrow>
     (''fleet_size'' \<in> set (columns df) \<and> ''modernity_index'' \<in> set (columns df) \<and>
      \<not> list_ex (\<lambda>r. is_text (r ''fleet_size'')) (rows df) \<and>
      out = \<lparr>columns = columns df,
             rows = map clamp_score
                      (filter (\<lambda>r. ge_cell (r ''fleet_size'') MIN_FLEET_SIZE) (rows df))\<rparr>)"
  by (auto simp: build_scores_main_def Let_def bind_err_Inr fleet_filter_Inr)

lemma build_scores_in_unit:
  assumes "build_scores_main (Some df) = Inr out" "r \<in> set (rows out)"
  shows "in_unit (r ''modernity_index'')"
  using assms by (auto simp: build_scores_Inr clamp_score_in_unit)

lemma features_example_columns:
  "''fleet_size'' \<in> set (columns features_example)"
  "''diversity_score'' \<in> set (columns features_example)"
  "''modernity_index'' \<in> set (columns features_example)"
  by (simp_all add: features_example_def)

lemma features_example_numeric:
  "\<not> list_ex (\<lambda>r. is_text (r ''fleet_size'')) (rows features_example)"
  by (simp add: features_example_def row_of_def)

subsection \<open>Stage 05\<close>

lemma prepare_rows:
  assumes "prepare (Some df) = Inr (Some dc)" "r \<in> set (rows dc)"
  shows "\<exists>r0\<in>set (rows df). r ''modernity_index'' = r0 ''modernity_index''"
  using assms
  by (auto simp: prepare_def bind_err_Inr fleet_filter_Inr with_new_gen_share_def Let_def
      split: if_splits) blast

lemma assign_cluster_Inr:
  assumes "assign_cluster dc cl = Inr out"
  shows "length cl = length (rows dc) \<and>
         map (\<lambda>r. r ''cluster'') (rows out) = map (\<lambda>c. Num (real c)) cl \<and>
         (\<forall>c. c \<noteq> ''cluster'' \<longrightarrow> map (\<lambda>r. r c) (rows out) = map (\<lambda>r. r c) (rows dc))"
proof -
  from assms have len: "length cl = length (rows dc)"
    and out: "rows out = map (\<lambda>(r, c). r(''cluster'' := Num (real c))) (zip (rows dc) cl)"
    by (auto simp: assign_cluster_def split: if_splits)
  have 1: "map (\<lambda>r. r ''cluster'') (rows out) = map (\<lambda>c. Num (real c)) cl"
    unfolding out using len by (intro nth_equalityI) simp_all
  have 2: "map (\<lambda>r. r c) (rows out) = map (\<lambda>r. r c) (rows dc)" if "c \<noteq> ''cluster''" for c
    unfolding out using len that by (intro nth_equalityI) simp_all
  from len 1 2 show ?thesis by simp
qed

lemma assign_pca_Inr:
  assumes "assign_pca dc comps = Inr out"
  shows "\<forall>c. c \<notin> {''pca_1'', ''pca_2''} \<longrightarrow>
              map (\<lambda>r. r c) (rows out) = map (\<lambda>r. r c) (rows dc)"
proof -
  from assms have len: "length comps = length (rows dc)"
    and out: "rows out = map (\<lambda>(r, p). r(''pca_1'' := Num (fst p), ''pca_2'' := Num (snd p)))
                           (zip (rows dc) comps)"
    by (auto simp: assign_pca_def split: if_splits)
  have "map (\<lambda>r. r c) (rows out) = map (\<lambda>r. r c) (rows dc)"
    if "c \<notin> {''pca_1'', ''pca_2''}" for c
    unfolding out using len that by (intro nth_equalityI) simp_all
  then show ?thesis by simp
qed

lemma run_steps:
  assumes "run lib g (Some df) = Inr (Some out)"
  shows "\<exists>dc sc km d1 comps.
           prepare (Some df) = Inr (Some dc) \<and>
           StandardScaler_fit lib (feature_matrix (rows dc)) = Inr sc \<and>
           KMeans_fit lib g (Some 42) 4 (map (scaler_transform sc) (feature_matrix (rows dc))) = Inr km \<and>
           assign_cluster dc (kmeans_labels km) = Inr d1 \<and>
           assign_pca d1 comps = Inr (clusters_csv out)"
  using assms
  by (auto simp: run_def bind_err_Inr Let_def split: option.splits) blast

lemma run_columns:
  assumes "run lib g (Some df) = Inr (Some out)"
  shows "\<exists>dc sc km.
           prepare (Some df) = Inr (Some dc) \<and>
           StandardScaler_fit lib (feature_matrix (rows dc)) = Inr sc \<and>
           KMeans_fit lib g (Some 42) 4 (map (scaler_transform sc) (feature_matrix (rows dc))) = Inr km \<and>
           length (kmeans_labels km) = length (rows dc) \<and>
           map (\<lambda>r. r ''cluster'') (rows (clusters_csv out))
             = map (\<lambda>c. Num (real c)) (kmeans_labels km) \<and>
           (\<forall>c. c \<notin> {''cluster'', ''pca_1'', ''pca_2''} \<longrightarrow>
              map (\<lambda>r. r c) (rows (clusters_csv out)) = map (\<lambda>r. r c) (rows dc))"
proof -
  from run_steps[OF assms] obtain dc sc d1 comps and km :: kmeans where
    p: "prepare (Some df) = Inr (Some dc)"
    and s: "StandardScaler_fit lib (feature_matrix (rows dc)) = Inr sc"
    and m: "KMeans_fit lib g (Some 42) 4 (map (scaler_transform sc) (feature_matrix (rows dc))) = Inr km"
    and c: "assign_cluster dc (kmeans_labels km) = Inr d1"
    and a: "assign_pca d1 comps = Inr (clusters_csv out)"
    by blast
  from assign_cluster_Inr[OF c] have len: "length (kmeans_labels km) = length (rows dc)"
    and cl: "map (\<lambda>r. r ''cluster'') (rows d1) = map (\<lambda>c. Num (real c)) (kmeans_labels km)"
    and c1: "\<And>c. c \<noteq> ''cluster'' \<Longrightarrow> map (\<lambda>r. r c) (rows d1) = map (\<lambda>r. r c) (rows dc)"
    by simp_all
  from assign_pca_Inr[OF a] have
    a1: "\<And>c. c \<notin> {''pca_1'', ''pca_2''} \<Longrightarrow>
           map (\<lambda>r. r c) (rows (clusters_csv out)) = map (\<lambda>r. r c) (rows d1)"
    by simp
  have 1: "map (\<lambda>r. r ''cluster'') (rows (clusters_csv out))
          = map (\<lambda>c. Num (real c)) (kmeans_labels km)"
    using a1[of "''cluster''"] cl by simp
  have 2: "\<forall>c. c \<notin> {''cluster'', ''pca_1'', ''pca_2''} \<longrightarrow>
              map (\<lambda>r. r c) (rows (clusters_csv out)) = map (\<lambda>r. r c) (rows dc)"
  proof (intro allI impI)
    fix c :: string
    assume n: "c \<notin> {''cluster'', ''pca_1'', ''pca_2''}"
    then have "map (\<lambda>r. r c) (rows (clusters_csv out)) = map (\<lambda>r. r c) (rows d1)"
      by (intro a1) simp
    also from n have "\<dots> = map (\<lambda>r. r c) (rows dc)"
      by (intro c1) simp
    finally show "map (\<lambda>r. r c) (rows (clusters_csv out)) = map (\<lambda>r. r c) (rows dc)" .
  qed
  show ?thesis
    by (intro exI[of _ dc] exI[of _ sc] exI[of _ km] conjI) (fact p s m len 1 2)+
qed

lemma run_in_unit:
  assumes scores: "\<forall>r\<in>set (rows df). in_unit (r ''modernity_index'')"
    and run: "run lib g (Some df) = Inr (Some out)"
    and r: "r \<in> set (rows (clusters_csv out))"
  shows "in_unit (r ''modernity_index'')"
proof -
  from run_columns[OF run] obtain dc where
    p: "prepare (Some df) = Inr (Some dc)"
    and o: "\<forall>c. c \<notin> {''cluster'', ''pca_1'', ''pca_2''} \<longrightarrow>
              map (\<lambda>r. r c) (rows (clusters_csv out)) = map (\<lambda>r. r c) (rows dc)"
    by (elim exE conjE) (rule that; assumption)
  have n: "''modernity_index'' \<notin> {''cluster'', ''pca_1'', ''pca_2''}" by simp
  have c: "map (\<lambda>r. r ''modernity_index'') (rows (clusters_csv out))
              = map (\<lambda>r. r ''modernity_index'') (rows dc)"
    by (rule o[rule_format, OF n])
  from r have "r ''modernity_index'' \<in> set (map (\<lambda>r. r ''modernity_index'') (rows dc))"
    unfolding c[symmetric] by simp
  then obtain r1 where r1: "r1 \<in> set (rows dc)"
    "r ''modernity_index'' = r1 ''modernity_index''" by auto
  from prepare_rows[OF p r1(1)] obtain r0 where "r0 \<in> set (rows df)"
    "r1 ''modernity_index'' = r0 ''modernity_index''" by blast
  with r1 scores show ?thesis by simp
qed

lemma elbow_loop_constant: "\<exists>e. elbow_loop constant_sklearn g X ks acc = Inr e"
  by (induction ks arbitrary: acc) (simp_all add: constant_sklearn_def)

lemma prepare_Some:
  assumes "''fleet_size'' \<in> set (columns df)" "''diversity_score'' \<in> set (columns df)"
    "''modernity_index'' \<in> set (columns df)"
    and "\<not> list_ex (\<lambda>r. is_text (r ''fleet_size'')) (rows df)"
  shows "prepare (Some df) =
           Inr (Some \<lparr>columns = columns (with_new_gen_share df),
                      rows = filter (\<lambda>r. ge_cell (r ''fleet_size'') MIN_FLEET_SIZE)
                               (rows (with_new_gen_share df))\<rparr>)"
proof -
  have "\<not> list_ex (\<lambda>r. is_text (r ''fleet_size'')) (rows (with_new_gen_share df))"
    using assms(4) by (simp add: with_new_gen_share_def list_ex_iff)
  then show ?thesis
    using assms(1-3)
    by (simp add: prepare_def ensure_required_cols_def fleet_filter_def Let_def)
qed

lemma run_constant:
  assumes "prepare (Some df) = Inr (Some dc)"
  shows "\<exists>out. run constant_sklearn g (Some df) = Inr (Some out)"
proof -
  let ?X = "map (scaler_transform \<lparr>scaler_mean = [0, 0, 0, 0], scaler_scale = [1, 1, 1, 1]\<rparr>)
              (feature_matrix (rows dc))"
  obtain e where
    "elbow_loop constant_sklearn g ?X [1..<10] \<lparr>elbow_k = [], elbow_inertia = []\<rparr> = Inr e"
    using elbow_loop_constant by blast
  with assms show ?thesis
    by (simp add: run_def Let_def constant_sklearn_def assign_cluster_def assign_pca_def
        feature_matrix_def)
qed

lemma run_fit_errors:
  assumes "prepare (Some df) = Inr (Some dc)"
  shows "(\<forall>e. StandardScaler_fit lib (feature_matrix (rows dc)) = Inl e \<longrightarrow>
              run lib g (Some df) = Inl e) \<and>
         (\<forall>sc e. StandardScaler_fit lib (feature_matrix (rows dc)) = Inr sc \<longrightarrow>
              KMeans_fit lib g (Some 42) 4 (map (scaler_transform sc) (feature_matrix (rows dc))) = Inl e \<longrightarrow>
              run lib g (Some df) = Inl e)"
  using assms by (simp add: run_def Let_def)

lemma elbow_loop_Inr:
  assumes "elbow_loop lib g X ks acc = Inr e"
  shows "elbow_k e = elbow_k acc @ ks \<and>
         (\<exists>kms. length kms = length ks \<and>
                (\<forall>i<length ks. KMeans_fit lib g (Some 42) (ks ! i) X = Inr (kms ! i)) \<and>
                elbow_inertia e = elbow_inertia acc @ map kmeans_inertia kms)"
  using assms
proof (induction ks arbitrary: acc)
  case Nil
  then show ?case by simp
next
  case (Cons k ks)
  from Cons.prems obtain km where km: "KMeans_fit lib g (Some 42) k X = Inr km"
    and rec: "elbow_loop lib g X ks \<lparr>elbow_k = elbow_k acc @ [k],
                 elbow_inertia = elbow_inertia acc @ [kmeans_inertia km]\<rparr> = Inr e"
    by (auto simp: bind_err_Inr)
  from Cons.IH[OF rec] obtain kms where k: "elbow_k e = elbow_k acc @ k # ks"
    and l: "length kms = length ks"
    and f: "\<forall>i<length ks. KMeans_fit lib g (Some 42) (ks ! i) X = Inr (kms ! i)"
    and i: "elbow_inertia e = elbow_inertia acc @ kmeans_inertia km # map kmeans_inertia kms"
    by auto
  have "\<forall>i<length (k # ks). KMeans_fit lib g (Some 42) ((k # ks) ! i) X = Inr ((km # kms) ! i)"
    using km f by (auto simp: nth_Cons split: nat.splits)
  with k l i show ?case
    by (intro conjI exI[of _ "km # kms"]) simp_all
qed

lemma run_elbow:
  assumes "run lib g (Some df) = Inr (Some out)"
  shows "\<exists>X. elbow_loop lib g X [1..<10] \<lparr>elbow_k = [], elbow_inertia = []\<rparr>
               = Inr (elbow_data out)"
  using assms
  by (auto simp: run_def bind_err_Inr Let_def split: option.splits) blast

lemma elbow_loop_seeded:
  assumes "seeded lib"
  shows "elbow_loop lib g X ks acc = elbow_loop lib g' X ks acc"
proof (induction ks arbitrary: acc)
  case Nil
  show ?case by simp
next
  case (Cons k ks)
  from assms have "KMeans_fit lib g (Some 42) k X = KMeans_fit lib g' (Some 42) k X"
    unfolding seeded_def by blast
  with Cons.IH show ?case by simp
qed

lemma constant_sklearn_seeded: "seeded constant_sklearn"
  by (simp add: seeded_def constant_sklearn_def)








subsection \<open>The majority vote\<close>

lemma find_SomeD: "find P xs = Some x \<Longrightarrow> x \<in> set xs \<and> P x"
  by (induction xs) (auto split: if_splits)

lemma find_unique:
  assumes "c \<in> set xs" "P c" "\<forall>x\<in>set xs. x \<noteq> c \<longrightarrow> \<not> P x"
  shows "find P xs = Some c"
  using assms by (induction xs) auto

lemma count_two_labels:
  assumes "l \<noteq> c"
  shows "count_list ls l + count_list ls c \<le> length ls"
  using assms by (induction ls) auto

lemma vote_majority:
  assumes "length ls < 2 * count_list ls c"
  shows "vote ls = Some c"
proof -
  have cin: "c \<in> set ls"
    using assms by (cases "c \<in> set ls") (simp_all add: count_list_0_iff)
  have P: "count_list ls l' \<le> count_list ls c" for l'
    using count_two_labels[of l' c ls] assms by (cases "l' = c") auto
  have U: "\<not> list_all (\<lambda>l'. count_list ls l' \<le> count_list ls l) ls" if "l \<noteq> c" for l
  proof
    assume "list_all (\<lambda>l'. count_list ls l' \<le> count_list ls l) ls"
    with cin have "count_list ls c \<le> count_list ls l" by (simp add: list_all_iff)
    with count_two_labels[OF that, of ls] assms show False by simp
  qed
  show ?thesis
    unfolding vote_def
  proof (rule find_unique)
    show "c \<in> set (sort (remdups ls))" using cin by simp
    show "list_all (\<lambda>l'. count_list ls l' \<le> count_list ls c) ls"
      using P by (simp add: list_all_iff)
    show "\<forall>x\<in>set (sort (remdups ls)). x \<noteq> c \<longrightarrow>
            \<not> list_all (\<lambda>l'. count_list ls l' \<le> count_list ls x) ls"
      using U by blast
  qed
qed

lemma vote_Some:
  assumes "vote ls = Some l"
  shows "l \<in> set ls \<and> (\<forall>l'. count_list ls l' \<le> count_list ls l)"
proof -
  from assms have "l \<in> set (sort (remdups ls))"
    and m: "list_all (\<lambda>l'. count_list ls l' \<le> count_list ls l) ls"
    unfolding vote_def by (auto dest: find_SomeD)
  then have lin: "l \<in> set ls" by simp
  have "count_list ls l' \<le> count_list ls l" for l'
  proof (cases "l' \<in> set ls")
    case True
    with m show ?thesis by (simp add: list_all_iff)
  next
    case False
    then show ?thesis by (simp add: count_list_0_iff)
  qed
  with lin show ?thesis by blast
qed

text \<open>
  The example: its Scaler is the one fitted on the twenty rows, each row is nearer to
  the mean of its own cluster than to the mean of any other, and the classifier holds
  sixteen rows.
\<close>

lemma example_scaler_fitted:
  "sum_list (map fst example_clusters) / 20 = 721/10"
  "sum_list (map (\<lambda>(f, l). (f - 721/10) * (f - 721/10)) example_clusters) / 20
     = (737/10) * (737/10)"
  by (simp_all add: example_clusters_def)

lemma example_centroids:
  "example_centroid 0 = 68/5" "example_centroid (Suc 0) = 81/2"
  "example_centroid 2 = 207/2" "example_centroid 3 = 811/4"
  by (simp_all add: example_centroid_def example_clusters_def)

lemma example_clusters_nearest_centroid:
  "list_all (\<lambda>(f, l). list_all (\<lambda>c. c = l \<or>
       \<bar>f - example_centroid l\<bar> < \<bar>f - example_centroid c\<bar>) [0, 1, 2, 3]) example_clusters"
  by (simp add: example_clusters_def example_centroids)

lemma example_knn_fit:
  "n_neighbors example_knn = 5" "length (fit_X example_knn) = 16"
  "fit_y example_knn = [0, 0, 0, 0, 0, 0, 0, 0, 1, 1, 2, 2, 2, 3, 3, 3]"
  by (simp_all add: example_knn_def example_clusters_def example_held_out_def
      KNeighborsClassifier_fit_def)

lemma example_kneighbors_40:
  "kneighbors example_knn (scaler_transform example_scaler (example_raw 40)) = [1, 1, 0, 0, 0]"
  by (simp add: kneighbors_def example_knn_def example_scaler_def example_raw_def
      example_clusters_def example_held_out_def KNeighborsClassifier_fit_def
      scaler_transform_def sq_dist_def)

lemma example_kneighbors_8:
  "kneighbors example_knn (scaler_transform example_scaler (example_raw 8)) = [0, 0, 0, 0, 0]"
  by (simp add: kneighbors_def example_knn_def example_scaler_def example_raw_def
      example_clusters_def example_held_out_def KNeighborsClassifier_fit_def
      scaler_transform_def sq_dist_def)

section \<open>The claims\<close>

text \<open>
  Claim C1, as amended. The clustering stage has no check for an empty or too small
  table. When the scores file exists, has the three required columns and a numeric
  \<open>fleet_size\<close> column, \<open>run\<close> raises nothing of its own before the first fit,
  however few rows the fleet-size filter leaves: the rows it keeps are exactly those
  with \<open>fleet_size\<close> at least \<open>MIN_FLEET_SIZE\<close>, their feature matrix goes to the
  fit of the Scaler and then to the fit of the 4-cluster model, and what \<open>run\<close> raises
  is the exception of the fitting routine.
\<close>

theorem no_empty_dataset_guard:
  assumes "''fleet_size'' \<in> set (columns df)" "''diversity_score'' \<in> set (columns df)"
    "''modernity_index'' \<in> set (columns df)"
    and "\<not> list_ex (\<lambda>r. is_text (r ''fleet_size'')) (rows df)"
  shows "\<exists>kept. kept = filter (\<lambda>r. ge_cell (r ''fleet_size'') MIN_FLEET_SIZE)
                          (rows (with_new_gen_share df)) \<and>
           prepare (Some df) =
             Inr (Some \<lparr>columns = columns (with_new_gen_share df), rows = kept\<rparr>) \<and>
           (\<forall>e. StandardScaler_fit lib (feature_matrix kept) = Inl e \<longrightarrow>
              run lib g (Some df) = Inl e) \<and>
           (\<forall>sc e. StandardScaler_fit lib (feature_matrix kept) = Inr sc \<longrightarrow>
              KMeans_fit lib g (Some 42) 4 (map (scaler_transform sc) (feature_matrix kept)) = Inl e \<longrightarrow>
              run lib g (Some df) = Inl e)"
  using prepare_Some[OF assms] run_fit_errors[OF prepare_Some[OF assms], of lib g] by simp

text \<open>
  The claim as stated fails on a scores file without rows: nothing is raised before the
  fit, the error that comes out is the one of the fitting routine, and with routines
  that accept the empty matrix the run completes.
\<close>

theorem no_empty_dataset_guard_counterexample:
  "prepare (Some empty_scores) =
     Inr (Some \<lparr>columns = columns empty_scores @ [''new_gen_share''], rows = []\<rparr>) \<and>
   run raising_sklearn 0 (Some empty_scores) = Inl LibraryError \<and>
   (\<exists>out. run constant_sklearn 0 (Some empty_scores) = Inr (Some out) \<and>
          rows (clusters_csv out) = [])"
  by (simp add: run_def prepare_def empty_scores_def ensure_required_cols_def
      with_new_gen_share_def fleet_filter_def constant_sklearn_def raising_sklearn_def
      Let_def feature_matrix_def upt_rec assign_cluster_def assign_pca_def)

theorem no_empty_dataset_guard_witness:
  "\<exists>kept. length kept = 3 \<and>
     prepare (Some features_example) =
       Inr (Some \<lparr>columns = columns features_example @ [''new_gen_share''], rows = kept\<rparr>) \<and>
     run raising_sklearn 0 (Some features_example) = Inl LibraryError"
proof -
  from no_empty_dataset_guard[OF features_example_columns features_example_numeric,
      where lib = raising_sklearn and g = 0]
  obtain kept where
    k: "kept = filter (\<lambda>r. ge_cell (r ''fleet_size'') MIN_FLEET_SIZE)
                 (rows (with_new_gen_share features_example))"
    and p: "prepare (Some features_example) =
       Inr (Some \<lparr>columns = columns (with_new_gen_share features_example), rows = kept\<rparr>)"
    and e: "\<forall>e. StandardScaler_fit raising_sklearn (feature_matrix kept) = Inl e \<longrightarrow>
              run raising_sklearn 0 (Some features_example) = Inl e"
    by blast
  have "length kept = 3"
    unfolding k
    by (simp add: features_example_def with_new_gen_share_def row_of_def MIN_FLEET_SIZE_def)
  moreover have "columns (with_new_gen_share features_example) =
      columns features_example @ [''new_gen_share'']"
    by (simp add: features_example_def with_new_gen_share_def)
  moreover have "run raising_sklearn 0 (Some features_example) = Inl LibraryError"
    using e by (simp add: raising_sklearn_def)
  ultimately show ?thesis using p by (intro exI[of _ kept]) simp
qed

text \<open>
  Claim C2, as amended. Transforming a feature vector through the persisted Scaler and
  classifying it through the persisted classifier (fitted on at least as many rows as it
  has neighbours) returns a label that no other label outvotes among the nearest
  training rows; it returns the cluster \<open>c\<close> whenever more than half of those nearest
  training rows carry \<open>c\<close>. The row's own cluster is returned in that case only.
\<close>

theorem classifier_returns_majority_of_neighbours:
  assumes "n_neighbors m \<le> length (fit_X m)"
  shows "(simulate s m x = Inr l \<longrightarrow>
            l \<in> set (kneighbors m (scaler_transform s x)) \<and>
            (\<forall>l'. count_list (kneighbors m (scaler_transform s x)) l'
                    \<le> count_list (kneighbors m (scaler_transform s x)) l)) \<and>
         (length (kneighbors m (scaler_transform s x))
            < 2 * count_list (kneighbors m (scaler_transform s x)) c \<longrightarrow>
            simulate s m x = Inr c)"
proof (intro conjI impI)
  assume "simulate s m x = Inr l"
  then have "vote (kneighbors m (scaler_transform s x)) = Some l"
    using assms by (auto simp: simulate_def knn_predict_def split: option.splits if_splits)
  then show "l \<in> set (kneighbors m (scaler_transform s x))"
    and "\<forall>l'. count_list (kneighbors m (scaler_transform s x)) l'
                    \<le> count_list (kneighbors m (scaler_transform s x)) l"
    using vote_Some by blast+
next
  assume "length (kneighbors m (scaler_transform s x))
            < 2 * count_list (kneighbors m (scaler_transform s x)) c"
  then have "vote (kneighbors m (scaler_transform s x)) = Some c" by (rule vote_majority)
  then show "simulate s m x = Inr c"
    using assms by (simp add: simulate_def knn_predict_def)
qed

text \<open>
  The claim as stated fails on the example: the airline with fleet size 40 is a row of
  the clustered table with cluster 1 and a row of the training set, and its own feature
  vector is classified into cluster 0. Its five nearest training rows are itself, the
  other airline of cluster 1 and three airlines of cluster 0.
\<close>

theorem round_trip_counterexample:
  "(40, 1) \<in> set example_clusters \<and>
   scaler_transform example_scaler (example_raw 40) \<in> set (fit_X example_knn) \<and>
   kneighbors example_knn (scaler_transform example_scaler (example_raw 40)) = [1, 1, 0, 0, 0] \<and>
   simulate example_scaler example_knn (example_raw 40) = Inr 0"
proof -
  have "(40, 1) \<in> set example_clusters"
    by (simp add: example_clusters_def)
  moreover have "scaler_transform example_scaler (example_raw 40) \<in> set (fit_X example_knn)"
    by (simp add: example_knn_def example_scaler_def example_raw_def example_clusters_def
        example_held_out_def KNeighborsClassifier_fit_def scaler_transform_def)
  moreover have "simulate example_scaler example_knn (example_raw 40) = Inr 0"
    by (simp add: simulate_def knn_predict_def example_knn_fit example_kneighbors_40 vote_def)
  ultimately show ?thesis using example_kneighbors_40 by simp
qed

theorem classifier_returns_majority_of_neighbours_witness:
  "n_neighbors example_knn \<le> length (fit_X example_knn) \<and>
   (8, 0) \<in> set example_clusters \<and>
   simulate example_scaler example_knn (example_raw 8) = Inr 0"
proof -
  have n: "n_neighbors example_knn \<le> length (fit_X example_knn)"
    by (simp add: example_knn_fit)
  have "length (kneighbors example_knn (scaler_transform example_scaler (example_raw 8)))
          < 2 * count_list (kneighbors example_knn
                              (scaler_transform example_scaler (example_raw 8))) 0"
    by (simp add: example_kneighbors_8)
  with classifier_returns_majority_of_neighbours[OF n, of example_scaler "example_raw 8" _ 0]
  have "simulate example_scaler example_knn (example_raw 8) = Inr 0" by blast
  with n show ?thesis by (simp add: example_clusters_def)
qed

text \<open>
  Claim C3. In every row of the features table, of the scores table (whatever the
  features file holds) and of the clusters table computed from a scores table of stage
  04, \<open>modernity_index\<close> is a number between 0 and 1; a score above 1 is written to
  the scores table as 1.
\<close>

theorem modernity_index_in_unit_interval:
  "(generate_features_main (Some fleet) = Inr feats \<longrightarrow>
      (\<forall>r\<in>set (rows feats). in_unit (r ''modernity_index''))) \<and>
   (build_scores_main (Some fdf) = Inr scores \<longrightarrow>
      (\<forall>r\<in>set (rows scores). in_unit (r ''modernity_index'')) \<and>
      (run lib g (Some scores) = Inr (Some out) \<longrightarrow>
         (\<forall>r\<in>set (rows (clusters_csv out)). in_unit (r ''modernity_index'')))) \<and>
   (1 < x \<longrightarrow> r0 ''modernity_index'' = Num x \<longrightarrow>
      clamp_score r0 ''modernity_index'' = Num 1)"
proof (intro conjI impI ballI)
  fix r assume "generate_features_main (Some fleet) = Inr feats" "r \<in> set (rows feats)"
  then show "in_unit (r ''modernity_index'')" by (rule generate_features_in_unit)
next
  fix r assume "build_scores_main (Some fdf) = Inr scores" "r \<in> set (rows scores)"
  then show "in_unit (r ''modernity_index'')" by (rule build_scores_in_unit)
next
  fix r assume b: "build_scores_main (Some fdf) = Inr scores"
    and ru: "run lib g (Some scores) = Inr (Some out)"
    and rin: "r \<in> set (rows (clusters_csv out))"
  have "\<forall>r\<in>set (rows scores). in_unit (r ''modernity_index'')"
    using build_scores_in_unit[OF b] by blast
  from this ru rin show "in_unit (r ''modernity_index'')" by (rule run_in_unit)
next
  assume "1 < x" "r0 ''modernity_index'' = Num x"
  then show "clamp_score r0 ''modernity_index'' = Num 1" by (simp add: clamp_score_def)
qed

theorem modernity_index_in_unit_interval_witness:
  "\<exists>feats scores out.
     generate_features_main (Some fleet_example) = Inr feats \<and>
     build_scores_main (Some features_example) = Inr scores \<and>
     run constant_sklearn 0 (Some scores) = Inr (Some out) \<and>
     length (rows feats) = 2 \<and> length (rows scores) = 3 \<and>
     list_all (\<lambda>r. in_unit (r ''modernity_index'')) (rows feats) \<and>
     list_all (\<lambda>r. in_unit (r ''modernity_index'')) (rows scores) \<and>
     list_all (\<lambda>r. in_unit (r ''modernity_index'')) (rows (clusters_csv out)) \<and>
     column_values ''modernity_index'' (Inr scores) = [Num 1, Num 0, Num (2/5)]"
proof -
  obtain feats where f: "generate_features_main (Some fleet_example) = Inr feats"
    and fl: "length (rows feats) = 2"
    by (simp add: generate_features_fleet_example)
  let ?scores = "\<lparr>columns = columns features_example,
      rows = map clamp_score (filter (\<lambda>r. ge_cell (r ''fleet_size'') MIN_FLEET_SIZE)
                               (rows features_example))\<rparr>"
  have s: "build_scores_main (Some features_example) = Inr ?scores"
    by (simp add: build_scores_Inr features_example_columns features_example_numeric)
  have sl: "length (rows ?scores) = 3"
    by (simp add: features_example_def row_of_def MIN_FLEET_SIZE_def)
  have sv: "column_values ''modernity_index'' (Inr ?scores) = [Num 1, Num 0, Num (2/5)]"
    by (simp add: column_values_def features_example_def row_of_def MIN_FLEET_SIZE_def
        clamp_score_def)
  have "''fleet_size'' \<in> set (columns ?scores)" "''diversity_score'' \<in> set (columns ?scores)"
    "''modernity_index'' \<in> set (columns ?scores)"
    by (simp_all add: features_example_def)
  moreover have "\<not> list_ex (\<lambda>r. is_text (r ''fleet_size'')) (rows ?scores)"
    using features_example_numeric by (simp add: list_ex_iff clamp_score_fleet)
  ultimately obtain dc where "prepare (Some ?scores) = Inr (Some dc)"
    using prepare_Some by blast
  then obtain out where o: "run constant_sklearn 0 (Some ?scores) = Inr (Some out)"
    using run_constant by blast
  note t = modernity_index_in_unit_interval[where fleet = fleet_example and feats = feats
      and fdf = features_example and scores = "?scores" and lib = constant_sklearn and g = 0
      and out = out and x = 2 and ?r0.0 = "\<lambda>c. Num 2"]
  from t f have 1: "list_all (\<lambda>r. in_unit (r ''modernity_index'')) (rows feats)"
    unfolding list_all_iff by blast
  from t s have 2: "list_all (\<lambda>r. in_unit (r ''modernity_index'')) (rows ?scores)"
    unfolding list_all_iff by blast
  from t s o have 3: "list_all (\<lambda>r. in_unit (r ''modernity_index'')) (rows (clusters_csv out))"
    unfolding list_all_iff by blast
  show ?thesis
    using f s o fl sl sv 1 2 3 by blast
qed

text \<open>
  Claim C4. When the features file has the columns \<open>fleet_size\<close> and
  \<open>modernity_index\<close> and its fleet sizes are numbers, stage 04 writes a scores table:
  with the threshold \<open>MIN_FLEET_SIZE\<close> of 5, it holds, in input order and with the
  score clamped, exactly the input rows whose fleet size is at least 5. A row below the
  threshold has no row in the output, and every output row has a fleet size of 5 or
  more.
\<close>

theorem filter_keeps_exactly_min_fleet:
  assumes cols: "''fleet_size'' \<in> set (columns df)" "''modernity_index'' \<in> set (columns df)"
    and num: "\<not> list_ex (\<lambda>r. is_text (r ''fleet_size'')) (rows df)"
  shows "\<exists>out. build_scores_main (Some df) = Inr out \<and>
           MIN_FLEET_SIZE = 5 \<and>
           rows out = map clamp_score (filter (\<lambda>r. ge_cell (r ''fleet_size'') 5) (rows df)) \<and>
           (\<forall>r\<in>set (rows df).
              (clamp_score r \<in> set (rows out)) = ge_cell (r ''fleet_size'') 5) \<and>
           (\<forall>r\<in>set (rows out). \<exists>x. r ''fleet_size'' = Num x \<and> 5 \<le> x)"
proof -
  let ?keep = "\<lambda>r. ge_cell (r ''fleet_size'') 5"
  let ?out = "\<lparr>columns = columns df, rows = map clamp_score (filter ?keep (rows df))\<rparr>"
  have ok: "build_scores_main (Some df) = Inr ?out"
    using cols num by (simp add: build_scores_Inr MIN_FLEET_SIZE_def)
  have iff: "(clamp_score r \<in> set (rows ?out)) = ?keep r" if "r \<in> set (rows df)" for r
  proof
    assume "clamp_score r \<in> set (rows ?out)"
    then obtain r' where r': "?keep r'" "clamp_score r' = clamp_score r" by auto
    from r'(2) have "clamp_score r' ''fleet_size'' = clamp_score r ''fleet_size''" by simp
    then have "r' ''fleet_size'' = r ''fleet_size''" by (simp add: clamp_score_fleet)
    with r'(1) show "?keep r" by simp
  next
    assume "?keep r"
    with that show "clamp_score r \<in> set (rows ?out)" by simp
  qed
  have big: "\<exists>x. r ''fleet_size'' = Num x \<and> 5 \<le> x" if "r \<in> set (rows ?out)" for r
  proof -
    from that obtain r' where r': "?keep r'" "r = clamp_score r'" by auto
    then have "ge_cell (r ''fleet_size'') 5" by (simp add: clamp_score_fleet)
    then show ?thesis by (cases "r ''fleet_size''") auto
  qed
  show ?thesis
    using ok iff big by (intro exI[of _ ?out]) (simp add: MIN_FLEET_SIZE_def)
qed

theorem filter_keeps_exactly_min_fleet_witness:
  "\<exists>out. build_scores_main (Some features_example) = Inr out \<and>
         map (\<lambda>r. r ''airline_name'') (rows out) = [Text ''C'', Text ''D'', Text ''E''] \<and>
         map (\<lambda>r. r ''fleet_size'') (rows out) = [Num 5, Num 5, Num 6]"
proof -
  from filter_keeps_exactly_min_fleet[OF features_example_columns(1)
      features_example_columns(3) features_example_numeric]
  obtain out where
    ok: "build_scores_main (Some features_example) = Inr out"
    and r: "rows out = map clamp_score
              (filter (\<lambda>r. ge_cell (r ''fleet_size'') 5) (rows features_example))"
    by blast
  have "map (\<lambda>r. r ''airline_name'') (rows out) = [Text ''C'', Text ''D'', Text ''E'']"
    unfolding r by (simp add: features_example_def row_of_def clamp_score_def)
  moreover have "map (\<lambda>r. r ''fleet_size'') (rows out) = [Num 5, Num 5, Num 6]"
    unfolding r by (simp add: features_example_def row_of_def clamp_score_def)
  ultimately show ?thesis using ok by (intro exI[of _ out]) simp
qed




text \<open>
  Claim C6. Two runs of the clustering stage on the same scores file return the same
  result (the same clusters table, elbow values, fitted models and classifier metrics,
  or the same error), whatever the state of the global random generator when each run
  starts: every routine that draws random numbers is called with the seed 42. The
  routines of scikit-learn are taken to keep their contract, that with a seed their
  result depends on their arguments only.
\<close>

theorem two_runs_same_output:
  assumes "seeded lib"
  shows "run lib g file = run lib g' file"
proof -
  from assms have k: "KMeans_fit lib g (Some 42) 4 X = KMeans_fit lib g' (Some 42) 4 X" for X
    unfolding seeded_def by blast
  from assms have t: "train_test_split lib g (Some 42) X y = train_test_split lib g' (Some 42) X y"
    for X y
    unfolding seeded_def by blast
  from assms have p: "PCA_fit_transform lib g (Some 42) X = PCA_fit_transform lib g' (Some 42) X"
    for X
    unfolding seeded_def by blast
  note e = elbow_loop_seeded[OF assms, of g _ _ _ g']
  show ?thesis
    unfolding run_def by (simp only: k t p e)
qed

theorem two_runs_same_output_witness:
  "seeded constant_sklearn \<and>
   KMeans_fit constant_sklearn 0 None 4 [[0]] \<noteq> KMeans_fit constant_sklearn 1 None 4 [[0]] \<and>
   run constant_sklearn 0 (Some features_example) =
   run constant_sklearn 1 (Some features_example) \<and>
   (\<exists>out. run constant_sklearn 1 (Some features_example) = Inr (Some out))"
proof -
  obtain dc where "prepare (Some features_example) = Inr (Some dc)"
    using prepare_Some[OF features_example_columns features_example_numeric] by blast
  then obtain out where "run constant_sklearn 1 (Some features_example) = Inr (Some out)"
    using run_constant[of features_example dc 1] by blast
  moreover have "KMeans_fit constant_sklearn 0 None 4 [[0]]
                   \<noteq> KMeans_fit constant_sklearn 1 None 4 [[0]]"
    by (simp add: constant_sklearn_def)
  ultimately show ?thesis
    using constant_sklearn_seeded
      two_runs_same_output[OF constant_sklearn_seeded, of 0 "Some features_example" 1]
    by simp
qed

text \<open>
  Claim C7, at the input where the code departs from it. Stages 03 and 04 raise
  \<open>FileNotFoundError\<close> when their input file is absent; the clustering stage returns
  normally, having written nothing.
\<close>

theorem missing_scores_file_returns_normally:
  "run lib g None = Inr None \<and>
   generate_features_main None = Inl FileNotFoundError \<and>
   build_scores_main None = Inl FileNotFoundError"
  by (simp add: run_def prepare_def generate_features_main_def build_scores_main_def)

text \<open>
  Claim C8, as amended. For every airline \<open>X\<close> of the features output, \<open>fleet_size\<close>
  is the number of input rows whose \<open>airline_name\<close>, stripped of surrounding
  whitespace, is \<open>X\<close> and that survive the drop of rows without entry year, country or
  region; it is at least 1, an airline has a row exactly when it has such an input row,
  and no airline has two rows. A row whose entry year is missing or not a number does
  not survive: it is not counted, with no year 0 in its place.
\<close>

theorem fleet_size_counts_surviving_rows:
  assumes "generate_features_main (Some df) = Inr out"
  shows "(\<forall>r\<in>set (rows out). \<exists>X. r ''airline_name'' = Text X \<and>
            r ''fleet_size'' = Num (real (fleet_count (rows df) X)) \<and>
            1 \<le> fleet_count (rows df) X) \<and>
         (\<forall>X. (\<exists>r\<in>set (rows out). r ''airline_name'' = Text X) \<longleftrightarrow>
                1 \<le> fleet_count (rows df) X) \<and>
         distinct (map (\<lambda>r. r ''airline_name'') (rows out)) \<and>
         (\<forall>a\<in>set (rows df). is_text (entry_year a) \<or> entry_year a = NaN \<longrightarrow>
                \<not> survives_drop a)"
proof -
  let ?K = "kept_rows (rows df)"
  let ?d = "diversity_col (columns df)"
  from assms have out:
    "rows out = map (\<lambda>k. feature_row ?d k (group_rows ?K k)) (group_keys ?K)"
    by (simp add: generate_features_Inr groupby_rows)
  have len: "length (group_rows ?K k) = fleet_count (rows df) k" for k
    by (simp add: group_rows_kept fleet_count_def)
  have keys: "k \<in> set (group_keys ?K) \<longleftrightarrow> 1 \<le> fleet_count (rows df) k" for k
  proof -
    have "k \<in> set (group_keys ?K) \<longleftrightarrow> group_rows ?K k \<noteq> []"
      by (auto simp: set_group_keys group_rows_def filter_empty_conv)
    also have "\<dots> \<longleftrightarrow> 1 \<le> length (group_rows ?K k)"
      by (cases "group_rows ?K k") auto
    finally show ?thesis by (simp add: len)
  qed
  have 1: "\<exists>X. r ''airline_name'' = Text X \<and>
            r ''fleet_size'' = Num (real (fleet_count (rows df) X)) \<and>
            1 \<le> fleet_count (rows df) X" if "r \<in> set (rows out)" for r
  proof -
    from that out obtain k where k: "k \<in> set (group_keys ?K)"
      "r = feature_row ?d k (group_rows ?K k)" by auto
    then show ?thesis
      using keys[of k] by (auto simp: feature_row_name feature_row_fleet len)
  qed
  have 2: "(\<exists>r\<in>set (rows out). r ''airline_name'' = Text X) \<longleftrightarrow>
                1 \<le> fleet_count (rows df) X" for X
    unfolding keys[symmetric] out by (auto simp: feature_row_name)
  have "map (\<lambda>r. r ''airline_name'') (rows out) = map Text (group_keys ?K)"
    by (simp add: out comp_def feature_row_name)
  then have 3: "distinct (map (\<lambda>r. r ''airline_name'') (rows out))"
    by (simp add: distinct_map distinct_group_keys inj_on_def)
  show ?thesis using 1 2 3 unparsable_dropped by blast
qed

text \<open>
  The claim as stated fails on the sample fleet: Air A has fleet size 2, and one input
  row only has the airline name \<open>Air A\<close> and survives (the other is named
  \<open>Air A\<close> with a trailing space).
\<close>

theorem fleet_size_counts_surviving_rows_counterexample:
  "column_values ''airline_name'' (generate_features_main (Some fleet_example))
     = [Text ''Air A'', Text ''Air C''] \<and>
   column_values ''fleet_size'' (generate_features_main (Some fleet_example))
     = [Num 2, Num 1] \<and>
   length (filter (\<lambda>a. airline_name a = Some ''Air A'' \<and> survives_drop a)
             (rows fleet_example)) = 1"
proof -
  have "length (filter (\<lambda>a. airline_name a = Some ''Air A'' \<and> survives_drop a)
             (rows fleet_example)) = 1"
    by (simp add: fleet_example_def survives_fleet_example)
       (simp add: air_a_1_def air_a_2_def air_c_2_def)
  then show ?thesis
    by (simp add: generate_features_fleet_example column_values_def feature_row_name
        feature_row_fleet)
qed

theorem fleet_size_counts_surviving_rows_witness:
  "\<exists>out. generate_features_main (Some fleet_example) = Inr out \<and>
     distinct (map (\<lambda>r. r ''airline_name'') (rows out)) \<and>
     1 \<le> fleet_count (rows fleet_example) ''Air C'' \<and>
     \<not> 1 \<le> fleet_count (rows fleet_example) ''Air B''"
proof -
  obtain out where o: "generate_features_main (Some fleet_example) = Inr out"
    and c: "\<exists>r\<in>set (rows out). r ''airline_name'' = Text ''Air C''"
    and b: "\<not> (\<exists>r\<in>set (rows out). r ''airline_name'' = Text ''Air B'')"
    by (simp add: generate_features_fleet_example feature_row_name)
  note t = fleet_size_counts_surviving_rows[OF o]
  from t have "distinct (map (\<lambda>r. r ''airline_name'') (rows out))" by blast
  moreover from t c have "1 \<le> fleet_count (rows fleet_example) ''Air C''" by blast
  moreover from t b have "\<not> 1 \<le> fleet_count (rows fleet_example) ''Air B''" by blast
  ultimately show ?thesis using o by blast
qed

text \<open>
  Claim C9, as amended. The airline names are stripped of surrounding whitespace before
  grouping, and nothing else is done to them: two input rows that survive the drop are
  aggregated into the same group, hence the same feature row, if and only if they have
  an airline name and their names are equal once stripped.
\<close>

theorem grouping_by_stripped_name:
  assumes "a \<in> set (rows df)" "b \<in> set (rows df)" "survives_drop a" "survives_drop b"
  shows "(\<exists>k g. (k, g) \<in> set (groupby (kept_rows (rows df))) \<and>
                 clean a \<in> set g \<and> clean b \<in> set g) \<longleftrightarrow>
         (airline_name a \<noteq> None \<and>
          map_option strip (airline_name a) = map_option strip (airline_name b))"
proof -
  let ?K = "kept_rows (rows df)"
  have ka: "clean a \<in> set ?K" and kb: "clean b \<in> set ?K"
    using assms by (auto simp: set_kept_rows)
  show ?thesis
  proof
    assume "\<exists>k g. (k, g) \<in> set (groupby ?K) \<and> clean a \<in> set g \<and> clean b \<in> set g"
    then obtain k where "clean a \<in> set (group_rows ?K k)" "clean b \<in> set (group_rows ?K k)"
      by (auto simp: groupby_def)
    then have "airline_name (clean a) = Some k" "airline_name (clean b) = Some k"
      by (auto simp: group_rows_def)
    then show "airline_name a \<noteq> None \<and>
          map_option strip (airline_name a) = map_option strip (airline_name b)"
      by (auto simp: clean_name)
  next
    assume h: "airline_name a \<noteq> None \<and>
          map_option strip (airline_name a) = map_option strip (airline_name b)"
    then obtain k where k: "airline_name (clean a) = Some k" "airline_name (clean b) = Some k"
      by (cases "airline_name a"; cases "airline_name b") (auto simp: clean_name)
    with ka have "k \<in> set (group_keys ?K)" by (auto simp: set_group_keys)
    then have "(k, group_rows ?K k) \<in> set (groupby ?K)" by (auto simp: groupby_def)
    moreover have "clean a \<in> set (group_rows ?K k)" "clean b \<in> set (group_rows ?K k)"
      using ka kb k by (auto simp: group_rows_def)
    ultimately show "\<exists>k g. (k, g) \<in> set (groupby ?K) \<and> clean a \<in> set g \<and> clean b \<in> set g"
      by blast
  qed
qed

text \<open>
  The claim as stated fails on the sample fleet: the first two rows have airline names
  that differ by a trailing space, and both are aggregated into the one row of Air A.
\<close>

theorem grouping_by_stripped_name_counterexample:
  "airline_name air_a_1 \<noteq> airline_name air_a_2 \<and>
   groupby (kept_rows (rows fleet_example)) =
     [(''Air A'', [clean air_a_1, clean air_a_2]), (''Air C'', [clean air_c_2])] \<and>
   column_values ''airline_name'' (generate_features_main (Some fleet_example))
     = [Text ''Air A'', Text ''Air C'']"
  by (simp add: groupby_fleet_example generate_features_fleet_example column_values_def
      feature_row_name)
     (simp add: air_a_1_def air_a_2_def)

theorem grouping_by_stripped_name_witness:
  "air_a_1 \<in> set (rows fleet_example) \<and> air_a_2 \<in> set (rows fleet_example) \<and>
   survives_drop air_a_1 \<and> survives_drop air_a_2 \<and>
   (\<exists>k g. (k, g) \<in> set (groupby (kept_rows (rows fleet_example))) \<and>
          clean air_a_1 \<in> set g \<and> clean air_a_2 \<in> set g)"
proof -
  have m: "air_a_1 \<in> set (rows fleet_example)" "air_a_2 \<in> set (rows fleet_example)"
    by (simp_all add: fleet_example_def)
  have "airline_name air_a_1 \<noteq> None \<and>
        map_option strip (airline_name air_a_1) = map_option strip (airline_name air_a_2)"
    by (simp add: air_a_1_def air_a_2_def strip_air_a)
  with grouping_by_stripped_name[OF m survives_fleet_example(1) survives_fleet_example(2)]
  have "\<exists>k g. (k, g) \<in> set (groupby (kept_rows (rows fleet_example))) \<and>
          clean air_a_1 \<in> set g \<and> clean air_a_2 \<in> set g"
    by blast
  with m survives_fleet_example(1,2) show ?thesis by blast
qed

text \<open>
  Claim C10. An input row whose country is missing or empty is dropped before the
  aggregation, whatever its region and entry year: the features written with the row
  in the input are those written without it.
\<close>

theorem rows_without_country_dropped:
  assumes "no_country a"
  shows "\<not> survives_drop a \<and>
         generate_features_main (Some (df\<lparr>rows := xs @ a # ys\<rparr>)) =
         generate_features_main (Some (df\<lparr>rows := xs @ ys\<rparr>))"
proof -
  have "\<not> has_geo (clean a)"
    using assms by (auto simp: no_country_def has_geo_def clean_def split: option.splits)
  then have "kept_rows (xs @ a # ys) = kept_rows (xs @ ys)" "\<not> survives_drop a"
    by (simp_all add: kept_rows_def survives_drop_def)
  then show ?thesis by (simp add: generate_features_main_def)
qed

theorem rows_without_country_dropped_witness:
  "no_country air_c_1 \<and> region air_c_1 = Some ''Asia'' \<and> entry_year air_c_1 = Num 2019 \<and>
   generate_features_main (Some fleet_example) =
   generate_features_main
     (Some (fleet_example\<lparr>rows := [air_a_1, air_a_2, air_b_1, air_c_2]\<rparr>)) \<and>
   column_values ''fleet_size'' (generate_features_main (Some fleet_example))
     = [Num 2, Num 1]"
proof -
  have n: "no_country air_c_1" by (simp add: no_country_def air_c_1_def)
  have "fleet_example\<lparr>rows := [air_a_1, air_a_2, air_b_1] @ air_c_1 # [air_c_2]\<rparr>
          = fleet_example"
    by (simp add: fleet_example_def)
  with rows_without_country_dropped[OF n, where df = fleet_example
      and xs = "[air_a_1, air_a_2, air_b_1]" and ys = "[air_c_2]"]
  have "generate_features_main (Some fleet_example) =
        generate_features_main
          (Some (fleet_example\<lparr>rows := [air_a_1, air_a_2, air_b_1, air_c_2]\<rparr>))"
    by simp
  moreover have "column_values ''fleet_size'' (generate_features_main (Some fleet_example))
     = [Num 2, Num 1]"
    by (simp add: generate_features_fleet_example column_values_def feature_row_fleet)
  ultimately show ?thesis using n by (simp add: air_c_1_def)
qed

section \<open>Further properties of the clustering stage\<close>

text \<open>
  The elbow diagnostic of a completed run: the values of \<open>k\<close> are 1 to 9 in order,
  there is one inertia for each, and the inertia at each position is the one reported
  by the fit with that \<open>k\<close> on the standardised matrix.
\<close>

theorem elbow_records_each_k:
  assumes "run lib g (Some df) = Inr (Some out)"
  shows "elbow_k (elbow_data out) = [1, 2, 3, 4, 5, 6, 7, 8, 9] \<and>
         length (elbow_inertia (elbow_data out)) = length (elbow_k (elbow_data out)) \<and>
         (\<exists>X. \<forall>i<9. \<exists>km. KMeans_fit lib g (Some 42) (elbow_k (elbow_data out) ! i) X = Inr km \<and>
                  elbow_inertia (elbow_data out) ! i = kmeans_inertia km)"
proof -
  from run_elbow[OF assms] obtain X where
    "elbow_loop lib g X [1..<10] \<lparr>elbow_k = [], elbow_inertia = []\<rparr> = Inr (elbow_data out)"
    by blast
  from elbow_loop_Inr[OF this] obtain kms where
    k: "elbow_k (elbow_data out) = [1..<10]" and l: "length kms = 9"
    and f: "\<forall>i<9. KMeans_fit lib g (Some 42) ([1..<10] ! i) X = Inr (kms ! i)"
    and i: "elbow_inertia (elbow_data out) = map kmeans_inertia kms"
    by auto
  have u: "[1..<10] = [1, 2, 3, 4, 5, 6, 7, 8, 9::nat]"
    by (simp add: upt_rec)
  have A: "elbow_k (elbow_data out) = [1, 2, 3, 4, 5, 6, 7, 8, 9]"
    using k u by simp
  have B: "length (elbow_inertia (elbow_data out)) = length (elbow_k (elbow_data out))"
    using k i l by simp
  have "\<forall>i<9. \<exists>km. KMeans_fit lib g (Some 42) (elbow_k (elbow_data out) ! i) X = Inr km \<and>
                  elbow_inertia (elbow_data out) ! i = kmeans_inertia km"
    using f l by (simp add: k i)
  with A B show ?thesis by blast
qed

theorem elbow_records_each_k_witness:
  "\<exists>out. run constant_sklearn 0 (Some features_example) = Inr (Some out) \<and>
     elbow_k (elbow_data out) = [1, 2, 3, 4, 5, 6, 7, 8, 9] \<and>
     length (elbow_inertia (elbow_data out)) = 9"
proof -
  obtain dc where "prepare (Some features_example) = Inr (Some dc)"
    using prepare_Some[OF features_example_columns features_example_numeric] by blast
  then obtain out where o: "run constant_sklearn 0 (Some features_example) = Inr (Some out)"
    using run_constant by blast
  from elbow_records_each_k[OF o] o show ?thesis by (intro exI[of _ out]) simp
qed

text \<open>
  A completed run writes one row of the clusters table for each row that passed the
  fleet-size filter, in the same order, with the label that the 4-cluster fit gave it;
  no row is dropped or duplicated. When the scores file has no \<open>new_gen_share\<close>
  column, the share written is the modernity index of the row.
\<close>

theorem clustering_keeps_every_row:
  assumes "run lib g (Some df) = Inr (Some out)"
  shows "\<exists>kept sc km. fleet_filter (rows (with_new_gen_share df)) = Inr kept \<and>
           StandardScaler_fit lib (feature_matrix kept) = Inr sc \<and>
           KMeans_fit lib g (Some 42) 4 (map (scaler_transform sc) (feature_matrix kept)) = Inr km \<and>
           length (rows (clusters_csv out)) = length kept \<and>
           length (kmeans_labels km) = length kept \<and>
           map (\<lambda>r. r ''cluster'') (rows (clusters_csv out))
             = map (\<lambda>c. Num (real c)) (kmeans_labels km) \<and>
           map (\<lambda>r. r ''airline_name'') (rows (clusters_csv out))
             = map (\<lambda>r. r ''airline_name'') kept \<and>
           map (\<lambda>r. r ''new_gen_share'') (rows (clusters_csv out))
             = map (\<lambda>r. r ''new_gen_share'') kept \<and>
           (''new_gen_share'' \<notin> set (columns df) \<longrightarrow>
              map (\<lambda>r. r ''new_gen_share'') kept = map (\<lambda>r. r ''modernity_index'') kept)"
proof -
  from run_columns[OF assms] obtain dc sc and km :: kmeans where
    p: "prepare (Some df) = Inr (Some dc)"
    and s: "StandardScaler_fit lib (feature_matrix (rows dc)) = Inr sc"
    and m: "KMeans_fit lib g (Some 42) 4 (map (scaler_transform sc) (feature_matrix (rows dc))) = Inr km"
    and l: "length (kmeans_labels km) = length (rows dc)"
    and c: "map (\<lambda>r. r ''cluster'') (rows (clusters_csv out))
              = map (\<lambda>c. Num (real c)) (kmeans_labels km)"
    and o: "\<forall>c. c \<notin> {''cluster'', ''pca_1'', ''pca_2''} \<longrightarrow>
              map (\<lambda>r. r c) (rows (clusters_csv out)) = map (\<lambda>r. r c) (rows dc)"
    by (elim exE conjE) (rule that; assumption)
  from p have k: "fleet_filter (rows (with_new_gen_share df)) = Inr (rows dc)"
    by (auto simp: prepare_def bind_err_Inr Let_def)
  then have r: "rows dc = filter (\<lambda>r. ge_cell (r ''fleet_size'') MIN_FLEET_SIZE)
                            (rows (with_new_gen_share df))"
    by (simp add: fleet_filter_Inr)
  have n: "map (\<lambda>r. r ''new_gen_share'') (rows dc) = map (\<lambda>r. r ''modernity_index'') (rows dc)"
    if "''new_gen_share'' \<notin> set (columns df)"
    unfolding r using that by (auto simp: with_new_gen_share_def)
  have "''airline_name'' \<notin> {''cluster'', ''pca_1'', ''pca_2''}" by simp
  from o[rule_format, OF this]
  have a: "map (\<lambda>r. r ''airline_name'') (rows (clusters_csv out))
             = map (\<lambda>r. r ''airline_name'') (rows dc)" .
  have "''new_gen_share'' \<notin> {''cluster'', ''pca_1'', ''pca_2''}" by simp
  from o[rule_format, OF this]
  have g: "map (\<lambda>r. r ''new_gen_share'') (rows (clusters_csv out))
             = map (\<lambda>r. r ''new_gen_share'') (rows dc)" .
  from a have len: "length (rows (clusters_csv out)) = length (rows dc)"
    by (metis length_map)
  show ?thesis
  proof (intro exI[of _ "rows dc"] exI[of _ sc] exI[of _ km] conjI impI)
    show "fleet_filter (rows (with_new_gen_share df)) = Inr (rows dc)" by (fact k)
    show "StandardScaler_fit lib (feature_matrix (rows dc)) = Inr sc" by (fact s)
    show "KMeans_fit lib g (Some 42) 4 (map (scaler_transform sc) (feature_matrix (rows dc))) = Inr km"
      by (fact m)
    show "length (rows (clusters_csv out)) = length (rows dc)" by (fact len)
    show "length (kmeans_labels km) = length (rows dc)" by (fact l)
    show "map (\<lambda>r. r ''cluster'') (rows (clusters_csv out))
            = map (\<lambda>c. Num (real c)) (kmeans_labels km)" by (fact c)
    show "map (\<lambda>r. r ''airline_name'') (rows (clusters_csv out))
            = map (\<lambda>r. r ''airline_name'') (rows dc)" by (fact a)
    show "map (\<lambda>r. r ''new_gen_share'') (rows (clusters_csv out))
            = map (\<lambda>r. r ''new_gen_share'') (rows dc)" by (fact g)
    show "map (\<lambda>r. r ''new_gen_share'') (rows dc) = map (\<lambda>r. r ''modernity_index'') (rows dc)"
      if "''new_gen_share'' \<notin> set (columns df)" using that by (rule n)
  qed
qed

theorem clustering_keeps_every_row_witness:
  "\<exists>out. run constant_sklearn 0 (Some features_example) = Inr (Some out) \<and>
     map (\<lambda>r. r ''airline_name'') (rows (clusters_csv out))
       = [Text ''C'', Text ''D'', Text ''E''] \<and>
     map (\<lambda>r. r ''new_gen_share'') (rows (clusters_csv out))
       = [Num (6/5), Text ''n/a'', Num (2/5)] \<and>
     map (\<lambda>r. r ''cluster'') (rows (clusters_csv out)) = [Num 0, Num 0, Num 0]"
proof -
  obtain dc where "prepare (Some features_example) = Inr (Some dc)"
    using prepare_Some[OF features_example_columns features_example_numeric] by blast
  then obtain out where o: "run constant_sklearn 0 (Some features_example) = Inr (Some out)"
    using run_constant by blast
  from clustering_keeps_every_row[OF o] obtain kept sc and km :: kmeans where
    k: "fleet_filter (rows (with_new_gen_share features_example)) = Inr kept"
    and s: "StandardScaler_fit constant_sklearn (feature_matrix kept) = Inr sc"
    and m: "KMeans_fit constant_sklearn 0 (Some 42) 4 (map (scaler_transform sc) (feature_matrix kept))
              = Inr km"
    and c: "map (\<lambda>r. r ''cluster'') (rows (clusters_csv out))
             = map (\<lambda>c. Num (real c)) (kmeans_labels km)"
    and a: "map (\<lambda>r. r ''airline_name'') (rows (clusters_csv out))
             = map (\<lambda>r. r ''airline_name'') kept"
    and g: "map (\<lambda>r. r ''new_gen_share'') (rows (clusters_csv out))
             = map (\<lambda>r. r ''new_gen_share'') kept"
    by blast
  from k have kept: "kept = filter (\<lambda>r. ge_cell (r ''fleet_size'') MIN_FLEET_SIZE)
                            (rows (with_new_gen_share features_example))"
    by (simp add: fleet_filter_Inr)
  have 1: "map (\<lambda>r. r ''airline_name'') kept = [Text ''C'', Text ''D'', Text ''E'']"
    unfolding kept
    by (simp add: features_example_def with_new_gen_share_def row_of_def MIN_FLEET_SIZE_def)
  have 2: "map (\<lambda>r. r ''new_gen_share'') kept = [Num (6/5), Text ''n/a'', Num (2/5)]"
    unfolding kept
    by (simp add: features_example_def with_new_gen_share_def row_of_def MIN_FLEET_SIZE_def)
  have "length kept = 3" using 1 by (metis length_map length_Cons list.size(3) numeral_3_eq_3)
  with m have 3: "map (\<lambda>c. Num (real c)) (kmeans_labels km) = [Num 0, Num 0, Num 0]"
    by (auto simp: constant_sklearn_def feature_matrix_def length_Suc_conv numeral_3_eq_3)
  from o a g c 1 2 3 show ?thesis by (intro exI[of _ out]) simp
qed

end
